theory Spec2Isabelle
  imports Complex_Main
begin

section \<open>Python values\<close>

text \<open>
  A Python \<open>str\<close> is modelled by \<open>string\<close>, each character standing for the code point of
  the same number (U+0000 to U+00FF).  A Python \<open>float\<close> is modelled by an exact rational.
  The exceptions that the modelled code can raise are values of \<open>py_error\<close>; a function
  that can raise returns \<open>py_error + 'a\<close>.
\<close>

datatype py_error = JSONDecodeError | AttributeError | TypeError | KeyError
  | ValidationError | ValueError | TransportError

text \<open>
  The result of \<open>json.loads\<close>, and any other dynamically typed value (\<open>Any\<close>): \<open>None\<close>,
  a \<open>bool\<close>, an \<open>int\<close>, a \<open>float\<close>, a \<open>str\<close>, a \<open>list\<close> or a \<open>dict\<close>.  A \<open>dict\<close> is an
  association list in insertion order with distinct keys.
\<close>

datatype json = JNull | JBool bool | JInt int | JFloat rat | JStr string
  | JArr "json list" | JObj "(string \<times> json) list"

text \<open>\<open>d.get(k, default)\<close>: an \<open>AttributeError\<close> on anything that is not a \<open>dict\<close>.\<close>

fun py_get :: "json \<Rightarrow> string \<Rightarrow> json \<Rightarrow> py_error + json" where
  "py_get (JObj kvs) k dflt = Inr (case map_of kvs k of Some v \<Rightarrow> v | None \<Rightarrow> dflt)"
| "py_get _ k dflt = Inl AttributeError"

text \<open>\<open>d[k1][k2]...\<close> on nested dicts, \<open>None\<close> where a key is absent or a value is no dict.\<close>

fun field_at :: "string list \<Rightarrow> json \<Rightarrow> json option" where
  "field_at [] j = Some j"
| "field_at (k # ks) (JObj kvs) = (case map_of kvs k of Some v \<Rightarrow> field_at ks v | None \<Rightarrow> None)"
| "field_at (k # ks) _ = None"

text \<open>The truth value of a Python object, as \<open>if x:\<close> reads it.\<close>

fun truthy :: "json \<Rightarrow> bool" where
  "truthy JNull = False"
| "truthy (JBool b) = b"
| "truthy (JInt n) = (n \<noteq> 0)"
| "truthy (JFloat r) = (r \<noteq> 0)"
| "truthy (JStr s) = (s \<noteq> [])"
| "truthy (JArr xs) = (xs \<noteq> [])"
| "truthy (JObj kvs) = (kvs \<noteq> [])"

section \<open>Strings\<close>

text \<open>
  \<open>str.lower\<close> on the code points below U+0100: the letters A to Z and the capital
  letters U+00C0 to U+00DE other than the multiplication sign U+00D7 move up by 32, which
  sets the bit of value 32 (it is clear in all of them).
\<close>

fun lower_char :: "char \<Rightarrow> char" where
  "lower_char (Char b0 b1 b2 b3 b4 b5 b6 b7) =
     (let n = (of_char (Char b0 b1 b2 b3 b4 b5 b6 b7) :: nat)
      in if (65 \<le> n \<and> n \<le> 90) \<or> (192 \<le> n \<and> n \<le> 222 \<and> n \<noteq> 215)
         then Char b0 b1 b2 b3 b4 True b6 b7 else Char b0 b1 b2 b3 b4 b5 b6 b7)"

definition lower :: "string \<Rightarrow> string" where
  "lower s = map lower_char s"

fun starts_with :: "string \<Rightarrow> string \<Rightarrow> bool" where
  "starts_with s [] = True"
| "starts_with [] (p # ps) = False"
| "starts_with (c # cs) (p # ps) = (c = p \<and> starts_with cs ps)"

text \<open>\<open>sub in s\<close> for two strings.\<close>

fun contains :: "string \<Rightarrow> string \<Rightarrow> bool" where
  "contains sub [] = (sub = [])"
| "contains sub (c # cs) = (starts_with (c # cs) sub \<or> contains sub cs)"

text \<open>
  \<open>str.isspace\<close> on the code points below U+0100: U+0009 to U+000D, U+001C to U+0020,
  U+0085 and U+00A0.  \<open>str.strip()\<close> removes such characters at both ends.
\<close>

definition is_space :: "char \<Rightarrow> bool" where
  "is_space c =
     (let n = (of_char c :: nat)
      in (9 \<le> n \<and> n \<le> 13) \<or> (28 \<le> n \<and> n \<le> 32) \<or> n = 133 \<or> n = 160)"

definition strip :: "string \<Rightarrow> string" where
  "strip s = rev (dropWhile is_space (rev (dropWhile is_space s)))"

text \<open>\<open>s[a:-b]\<close> for \<open>b > 0\<close>: an end before the start gives the empty string.\<close>

definition slice_to_neg :: "string \<Rightarrow> nat \<Rightarrow> nat \<Rightarrow> string" where
  "slice_to_neg s a b = drop a (take (length s - b) s)"

section \<open>The graph model (models/knowledge\_graph.py)\<close>

text \<open>
  \<open>GraphEntity\<close>, \<open>GraphRelation\<close> and \<open>KnowledgeGraph\<close>.  The fields \<open>created_at\<close> and
  \<open>updated_at\<close> of entities and relations hold the wall-clock time of construction and are
  read by no modelled function; they are left out.  The graph's \<open>updated_at\<close> is written by
  \<open>add_entity\<close> and \<open>add_relation\<close>, so it is kept, with the clock reading as an argument.
\<close>

record graph_entity =
  e_id :: string
  e_name :: string
  e_type :: string
  e_category :: "string option"
  e_attributes :: "(string \<times> json) list"
  e_confidence :: rat

record graph_relation =
  r_id :: string
  r_source_entity_id :: string
  r_target_entity_id :: string
  r_relation_type :: string
  r_weight :: rat
  r_attributes :: "(string \<times> json) list"
  r_receipt_id :: "string option"
  r_transaction_date :: "nat option"

record knowledge_graph =
  g_id :: string
  g_name :: string
  g_description :: "string option"
  g_entities :: "graph_entity list"
  g_relations :: "graph_relation list"
  g_receipt_ids :: "string list"
  g_user_id :: "string option"
  total_entities :: nat
  total_relations :: nat
  g_created_at :: nat
  g_updated_at :: nat

text \<open>
  The constructor \<open>KnowledgeGraph(...)\<close>.  Every field can be given by keyword; no
  validator relates the two counters to the two lists.  The defaults are a fresh
  \<open>uuid4\<close> for \<open>id\<close>, \<open>None\<close> for \<open>description\<close> and \<open>user_id\<close>, the empty list for
  \<open>entities\<close>, \<open>relations\<close> and \<open>receipt_ids\<close>, 0 for both counters and the reading of
  \<open>datetime.utcnow()\<close> for \<open>created_at\<close> and \<open>updated_at\<close>; a caller that leaves a field
  out passes its default here.
\<close>

definition KnowledgeGraph ::
  "string \<Rightarrow> string \<Rightarrow> string option \<Rightarrow> graph_entity list \<Rightarrow> graph_relation list
     \<Rightarrow> string list \<Rightarrow> string option \<Rightarrow> nat \<Rightarrow> nat \<Rightarrow> nat \<Rightarrow> nat \<Rightarrow> knowledge_graph" where
  "KnowledgeGraph gid name description entities relations receipt_ids user_id
       n_entities n_relations created_at updated_at =
     \<lparr>g_id = gid, g_name = name, g_description = description,
      g_entities = entities, g_relations = relations,
      g_receipt_ids = receipt_ids, g_user_id = user_id,
      total_entities = n_entities, total_relations = n_relations,
      g_created_at = created_at, g_updated_at = updated_at\<rparr>"

text \<open>
  The call of the builder, \<open>KnowledgeGraph(name=..., description=..., receipt_ids=...,
  user_id=...)\<close>: the lists of entities and relations and the counters take their defaults.
  \<open>new_id\<close> is the value drawn from \<open>uuid.uuid4()\<close> and \<open>now\<close> the reading of the clock.
\<close>

definition new_graph ::
  "string \<Rightarrow> nat \<Rightarrow> string \<Rightarrow> string option \<Rightarrow> string list \<Rightarrow> string option
     \<Rightarrow> knowledge_graph" where
  "new_graph new_id now name description receipt_ids user_id =
     KnowledgeGraph new_id name description [] [] receipt_ids user_id 0 0 now now"

text \<open>
  A stored document, as \<open>to_dict\<close> writes it and \<open>from_dict\<close> reads it.  \<open>from_dict\<close> takes
  the two counters from the document when it has them and from the lengths of the lists
  when it has not.
\<close>

record graph_doc =
  d_id :: string
  d_name :: string
  d_description :: "string option"
  d_entities :: "graph_entity list"
  d_relations :: "graph_relation list"
  d_receipt_ids :: "string list"
  d_user_id :: "string option"
  d_total_entities :: "nat option"
  d_total_relations :: "nat option"
  d_created_at :: nat
  d_updated_at :: nat

definition to_dict :: "knowledge_graph \<Rightarrow> graph_doc" where
  "to_dict self =
     \<lparr>d_id = g_id self, d_name = g_name self, d_description = g_description self,
      d_entities = g_entities self, d_relations = g_relations self,
      d_receipt_ids = g_receipt_ids self, d_user_id = g_user_id self,
      d_total_entities = Some (total_entities self),
      d_total_relations = Some (total_relations self),
      d_created_at = g_created_at self, d_updated_at = g_updated_at self\<rparr>"

definition from_dict :: "graph_doc \<Rightarrow> knowledge_graph" where
  "from_dict data =
     (let entities = d_entities data; relations = d_relations data
      in KnowledgeGraph (d_id data) (d_name data) (d_description data) entities relations
           (d_receipt_ids data) (d_user_id data)
           (case d_total_entities data of Some n \<Rightarrow> n | None \<Rightarrow> length entities)
           (case d_total_relations data of Some n \<Rightarrow> n | None \<Rightarrow> length relations)
           (d_created_at data) (d_updated_at data))"

definition add_entity :: "knowledge_graph \<Rightarrow> graph_entity \<Rightarrow> nat \<Rightarrow> knowledge_graph" where
  "add_entity self entity now =
     (let self1 = self\<lparr>g_entities := g_entities self @ [entity]\<rparr>;
          self2 = self1\<lparr>total_entities := length (g_entities self1)\<rparr>
      in self2\<lparr>g_updated_at := now\<rparr>)"

definition add_relation :: "knowledge_graph \<Rightarrow> graph_relation \<Rightarrow> nat \<Rightarrow> knowledge_graph" where
  "add_relation self relation now =
     (let self1 = self\<lparr>g_relations := g_relations self @ [relation]\<rparr>;
          self2 = self1\<lparr>total_relations := length (g_relations self1)\<rparr>
      in self2\<lparr>g_updated_at := now\<rparr>)"

text \<open>A mutation of a graph, with the clock reading at which it happens.\<close>

datatype graph_op = AddEntity graph_entity nat | AddRelation graph_relation nat

fun apply_graph_op :: "knowledge_graph \<Rightarrow> graph_op \<Rightarrow> knowledge_graph" where
  "apply_graph_op g (AddEntity e now) = add_entity g e now"
| "apply_graph_op g (AddRelation r now) = add_relation g r now"

fun is_add_entity :: "graph_op \<Rightarrow> bool" where
  "is_add_entity (AddEntity e now) = True"
| "is_add_entity (AddRelation r now) = False"

fun is_add_relation :: "graph_op \<Rightarrow> bool" where
  "is_add_relation (AddEntity e now) = False"
| "is_add_relation (AddRelation r now) = True"

definition counters_ok :: "knowledge_graph \<Rightarrow> bool" where
  "counters_ok g \<longleftrightarrow>
     total_entities g = length (g_entities g) \<and> total_relations g = length (g_relations g)"

text \<open>
  A graph that the constructor accepts although its relation counter disagrees with its
  relation list: \<open>KnowledgeGraph(id="g", name="stale", relations=[r])\<close>, the counters left
  at their default 0.  \<open>from_dict\<close> builds the same graph from a document that stores the
  counter 0 beside one relation.
\<close>

definition sample_entity :: graph_entity where
  "sample_entity =
     \<lparr>e_id = ''e1'', e_name = ''Milk'', e_type = ''product'', e_category = None,
      e_attributes = [], e_confidence = 1\<rparr>"

definition sample_relation :: graph_relation where
  "sample_relation =
     \<lparr>r_id = ''r1'', r_source_entity_id = ''e1'', r_target_entity_id = ''e2'',
      r_relation_type = ''purchased_at'', r_weight = 1, r_attributes = [],
      r_receipt_id = None, r_transaction_date = None\<rparr>"

definition stale_graph :: knowledge_graph where
  "stale_graph = KnowledgeGraph ''g'' ''stale'' None [] [sample_relation] [] None 0 0 0 0"

section \<open>Graph counters\<close>

lemma counters_ok_new: "counters_ok (new_graph i now n d rs u)"
  by (simp add: counters_ok_def new_graph_def KnowledgeGraph_def)

lemma counters_ok_step: "counters_ok g \<Longrightarrow> counters_ok (apply_graph_op g op)"
  by (cases op) (simp_all add: counters_ok_def add_entity_def add_relation_def Let_def)

lemma counters_ok_foldl: "counters_ok g \<Longrightarrow> counters_ok (foldl apply_graph_op g ops)"
  by (induction ops arbitrary: g) (simp_all add: counters_ok_step)

lemma entity_counter_step:
  "total_entities g = length (g_entities g) \<or> is_add_entity op
   \<Longrightarrow> total_entities (apply_graph_op g op) = length (g_entities (apply_graph_op g op))"
  by (cases op) (auto simp: add_entity_def add_relation_def Let_def)

lemma relation_counter_step:
  "total_relations g = length (g_relations g) \<or> is_add_relation op
   \<Longrightarrow> total_relations (apply_graph_op g op) = length (g_relations (apply_graph_op g op))"
  by (cases op) (auto simp: add_entity_def add_relation_def Let_def)

lemma entity_counter_foldl:
  "total_entities g = length (g_entities g) \<or> list_ex is_add_entity ops
   \<Longrightarrow> total_entities (foldl apply_graph_op g ops)
       = length (g_entities (foldl apply_graph_op g ops))"
proof (induction ops arbitrary: g)
  case Nil
  then show ?case by simp
next
  case (Cons op ops)
  show ?case
  proof (cases "total_entities g = length (g_entities g) \<or> is_add_entity op")
    case True
    then have "total_entities (apply_graph_op g op) = length (g_entities (apply_graph_op g op))"
      by (rule entity_counter_step)
    then show ?thesis using Cons.IH [of "apply_graph_op g op"] by simp
  next
    case False
    with Cons.prems have "list_ex is_add_entity ops" by simp
    then show ?thesis using Cons.IH [of "apply_graph_op g op"] by simp
  qed
qed

lemma relation_counter_foldl:
  "total_relations g = length (g_relations g) \<or> list_ex is_add_relation ops
   \<Longrightarrow> total_relations (foldl apply_graph_op g ops)
       = length (g_relations (foldl apply_graph_op g ops))"
proof (induction ops arbitrary: g)
  case Nil
  then show ?case by simp
next
  case (Cons op ops)
  show ?case
  proof (cases "total_relations g = length (g_relations g) \<or> is_add_relation op")
    case True
    then have "total_relations (apply_graph_op g op)
        = length (g_relations (apply_graph_op g op))"
      by (rule relation_counter_step)
    then show ?thesis using Cons.IH [of "apply_graph_op g op"] by simp
  next
    case False
    with Cons.prems have "list_ex is_add_relation ops" by simp
    then show ?thesis using Cons.IH [of "apply_graph_op g op"] by simp
  qed
qed

text \<open>
  Claim C6 as stated fails: on the graph \<open>stale_graph\<close>, which the constructor accepts, one
  \<open>add_entity\<close> leaves \<open>total_relations\<close> at 0 while the relation list has one element.
\<close>

theorem graph_counters_counterexample:
  "total_relations (foldl apply_graph_op stale_graph [AddEntity sample_entity 1])
     \<noteq> length (g_relations (foldl apply_graph_op stale_graph [AddEntity sample_entity 1]))"
  by (simp add: stale_graph_def KnowledgeGraph_def add_entity_def Let_def)

text \<open>
  Claim C6, amended.  \<open>add_entity\<close> makes \<open>total_entities\<close> the length of the entity list
  and \<open>add_relation\<close> makes \<open>total_relations\<close> the length of the relation list, on any
  graph.  So after any sequence of the two operations \<open>total_entities\<close> is the length of the
  entity list when it was so before the sequence or the sequence has an \<open>add_entity\<close>, and
  likewise for the relations; in particular both equalities hold after any sequence on a
  graph where they held before, such as a graph that the constructor made with its default
  lists and counters (the builder's call) or that \<open>from_dict\<close> made from a document without
  stored counters.
\<close>

theorem graph_counters:
  "total_entities (add_entity g e t) = length (g_entities (add_entity g e t))
   \<and> total_relations (add_relation g r t) = length (g_relations (add_relation g r t))
   \<and> (total_entities g = length (g_entities g) \<or> list_ex is_add_entity ops
      \<longrightarrow> total_entities (foldl apply_graph_op g ops)
            = length (g_entities (foldl apply_graph_op g ops)))
   \<and> (total_relations g = length (g_relations g) \<or> list_ex is_add_relation ops
      \<longrightarrow> total_relations (foldl apply_graph_op g ops)
            = length (g_relations (foldl apply_graph_op g ops)))
   \<and> total_entities (foldl apply_graph_op (new_graph i now n d rs u) ops)
       = length (g_entities (foldl apply_graph_op (new_graph i now n d rs u) ops))
   \<and> total_relations (foldl apply_graph_op (new_graph i now n d rs u) ops)
       = length (g_relations (foldl apply_graph_op (new_graph i now n d rs u) ops))
   \<and> total_entities (foldl apply_graph_op
         (from_dict (doc\<lparr>d_total_entities := None, d_total_relations := None\<rparr>)) ops)
       = length (g_entities (foldl apply_graph_op
           (from_dict (doc\<lparr>d_total_entities := None, d_total_relations := None\<rparr>)) ops))
   \<and> total_relations (foldl apply_graph_op
         (from_dict (doc\<lparr>d_total_entities := None, d_total_relations := None\<rparr>)) ops)
       = length (g_relations (foldl apply_graph_op
           (from_dict (doc\<lparr>d_total_entities := None, d_total_relations := None\<rparr>)) ops))"
proof -
  have new: "counters_ok (foldl apply_graph_op (new_graph i now n d rs u) ops)"
    by (rule counters_ok_foldl) (rule counters_ok_new)
  have "counters_ok (from_dict (doc\<lparr>d_total_entities := None, d_total_relations := None\<rparr>))"
    by (simp add: counters_ok_def from_dict_def KnowledgeGraph_def Let_def)
  then have loaded: "counters_ok (foldl apply_graph_op
      (from_dict (doc\<lparr>d_total_entities := None, d_total_relations := None\<rparr>)) ops)"
    by (rule counters_ok_foldl)
  have single: "total_entities (add_entity g e t) = length (g_entities (add_entity g e t))"
    "total_relations (add_relation g r t) = length (g_relations (add_relation g r t))"
    by (simp_all add: add_entity_def add_relation_def Let_def)
  from new loaded single entity_counter_foldl [of g ops] relation_counter_foldl [of g ops]
  show ?thesis
    unfolding counters_ok_def by blast
qed

theorem graph_counters_witness:
  "total_entities stale_graph = length (g_entities stale_graph)
   \<and> total_entities (foldl apply_graph_op stale_graph [AddRelation sample_relation 1])
       = length (g_entities (foldl apply_graph_op stale_graph [AddRelation sample_relation 1]))
   \<and> list_ex is_add_relation [AddRelation sample_relation 1]
   \<and> total_relations (foldl apply_graph_op stale_graph [AddRelation sample_relation 1])
       = length (g_relations (foldl apply_graph_op stale_graph [AddRelation sample_relation 1]))"
proof -
  have h1: "total_entities stale_graph = length (g_entities stale_graph)"
    by (simp add: stale_graph_def KnowledgeGraph_def)
  have h2: "list_ex is_add_relation [AddRelation sample_relation 1]"
    by simp
  from h1 h2 graph_counters [where g = stale_graph
      and ops = "[AddRelation sample_relation 1]"]
  show ?thesis by blast
qed

section \<open>Receipt items\<close>

text \<open>
  Modelled from the spec: the class \<open>ReceiptItem\<close> of \<open>models/receipt.py\<close>, which is not among
  the source files.  The fields are the ones \<open>graph_builder.py\<close> reads from it (name,
  description, unit price, quantity, total price, sku).
\<close>

record receipt_item =
  ri_name :: string
  ri_description :: "string option"
  ri_unit_price :: rat
  ri_quantity :: rat
  ri_total_price :: rat
  ri_sku :: "string option"

text \<open>
  An item is a \<open>ReceiptItem\<close> object or an element of the list that the text extractor
  returned.  The extractor returns what \<open>json.loads\<close> made of the AI response, which nothing
  validates: such an item is meant to be a \<open>dict\<close> with the keys \<open>name\<close>, \<open>price\<close>,
  \<open>quantity\<close> and \<open>total_price\<close>, but it can be any JSON value.  No JSON value has an
  attribute \<open>name\<close>, so \<open>hasattr(item, 'name')\<close> tells the two kinds apart.
\<close>

datatype item = ReceiptItem receipt_item | DictItem json

section \<open>The keyword classifier (\_create\_fallback\_classifications)\<close>

definition food_keywords :: "string list" where
  "food_keywords =
     [''milk'', ''bread'', ''egg'', ''rice'', ''sugar'', ''tea'', ''coffee'', ''juice'', ''water'',
      ''cola'', ''soda'', ''snack'', ''biscuit'', ''chocolate'', ''fruit'', ''vegetable'',
      ''oil'', ''flour'', ''butter'', ''cheese'', ''meat'', ''chicken'', ''fish'', ''pasta'']"

definition electronics_keywords :: "string list" where
  "electronics_keywords =
     [''laptop'', ''computer'', ''phone'', ''mobile'', ''tablet'', ''tv'', ''camera'',
      ''headphone'', ''speaker'', ''cable'', ''charger'', ''mouse'', ''keyboard'']"

definition clothing_keywords :: "string list" where
  "clothing_keywords =
     [''shirt'', ''pant'', ''dress'', ''shoe'', ''bag'', ''jacket'', ''cap'', ''hat'',
      ''trouser'', ''jean'', ''suit'', ''sock'', ''underwear'']"

definition pharmacy_keywords :: "string list" where
  "pharmacy_keywords =
     [''tablet'', ''capsule'', ''syrup'', ''medicine'', ''drug'', ''vitamin'',
      ''paracetamol'', ''aspirin'', ''cream'', ''ointment'', ''bandage'']"

text \<open>\<open>any(keyword in item_name for keyword in keywords)\<close>\<close>

definition any_keyword_in :: "string list \<Rightarrow> string \<Rightarrow> bool" where
  "any_keyword_in keywords item_name = list_ex (\<lambda>keyword. contains keyword item_name) keywords"

text \<open>The dict \<open>expiry_rules\<close> of \<open>_predict_expiry_date\<close>, in the order it is written.\<close>

definition expiry_rules :: "(string \<times> int) list" where
  "expiry_rules =
     [(''milk'', 3), (''yogurt'', 5), (''cream'', 4), (''butter'', 7), (''cheese'', 10),
      (''bread'', 3), (''bun'', 2), (''cake'', 4), (''pastry'', 2), (''croissant'', 2),
      (''banana'', 5), (''apple'', 14), (''orange'', 10), (''tomato'', 7), (''lettuce'', 3),
      (''potato'', 30), (''onion'', 21), (''carrot'', 21), (''cucumber'', 7),
      (''chicken'', 2), (''beef'', 3), (''pork'', 3), (''fish'', 1), (''shrimp'', 1),
      (''pasta'', 365), (''rice'', 365), (''flour'', 180), (''sugar'', 730),
      (''oil'', 180), (''vinegar'', 730), (''sauce'', 90), (''jam'', 365),
      (''juice'', 7), (''soda'', 180), (''water'', 365), (''tea'', 730), (''coffee'', 365),
      (''frozen'', 90), (''ice'', 365),
      (''canned'', 730), (''can'', 730),
      (''tablet'', 730), (''capsule'', 730), (''syrup'', 365), (''vitamin'', 730),
      (''default'', 30)]"

text \<open>
  The loop over \<open>expiry_rules.items()\<close>: the days of the first keyword, other than
  \<open>default\<close>, that occurs in the product name; \<open>expiry_days\<close> as it stands when none does.
\<close>

fun find_expiry_days :: "(string \<times> int) list \<Rightarrow> string \<Rightarrow> int \<Rightarrow> int" where
  "find_expiry_days [] product_lower expiry_days = expiry_days"
| "find_expiry_days ((keyword, days) # rules) product_lower expiry_days =
     (if keyword \<noteq> ''default'' \<and> contains keyword product_lower then days
      else find_expiry_days rules product_lower expiry_days)"

text \<open>
  A date is its day number (\<open>date.toordinal()\<close>), so that adding a \<open>timedelta\<close> of \<open>n\<close> days
  adds \<open>n\<close>.  \<open>today\<close> is the reading of \<open>datetime.now().date()\<close> and \<open>isoformat\<close> is
  \<open>date.isoformat\<close>; both are arguments.
\<close>

definition expiry_days_of :: "string \<Rightarrow> int" where
  "expiry_days_of product_name =
     find_expiry_days expiry_rules (lower product_name)
       (case map_of expiry_rules ''default'' of Some d \<Rightarrow> d | None \<Rightarrow> 30)"

definition predict_expiry_date :: "(int \<Rightarrow> string) \<Rightarrow> int \<Rightarrow> string \<Rightarrow> string" where
  "predict_expiry_date isoformat today product_name =
     isoformat (today + expiry_days_of product_name)"

text \<open>
  The name and the price that the classifier reads from an item of either kind.  On a value
  that is not a \<open>dict\<close> the call of \<open>get\<close> raises \<open>AttributeError\<close>, and so does the call of
  \<open>lower\<close> on a name that is not a string.  The floating-point constant 0.7 is written as
  the rational 7/10.
\<close>

fun fallback_item_name :: "item \<Rightarrow> py_error + string" where
  "fallback_item_name (ReceiptItem i) = Inr (lower (ri_name i))"
| "fallback_item_name (DictItem j) =
     (case py_get j ''name'' (JStr ''unknown'') of
        Inl e \<Rightarrow> Inl e
      | Inr name \<Rightarrow> (case name of JStr s \<Rightarrow> Inr (lower s) | _ \<Rightarrow> Inl AttributeError))"

fun fallback_item_price :: "item \<Rightarrow> py_error + json" where
  "fallback_item_price (ReceiptItem i) = Inr (JFloat (ri_unit_price i))"
| "fallback_item_price (DictItem j) = py_get j ''price'' (JFloat 0)"

text \<open>The \<open>if\<close>/\<open>elif\<close> chain: category, \<open>is_food\<close>, \<open>has_expiry\<close>.\<close>

definition keyword_category :: "string \<Rightarrow> string \<times> bool \<times> bool" where
  "keyword_category item_name =
     (if any_keyword_in food_keywords item_name then (''grocery'', True, True)
      else if any_keyword_in electronics_keywords item_name then (''electronics'', False, False)
      else if any_keyword_in clothing_keywords item_name then (''clothing'', False, False)
      else if any_keyword_in pharmacy_keywords item_name then (''pharmacy'', False, True)
      else (''other'', False, False))"

text \<open>The record that the loop body builds once it has the name and the price.\<close>

definition classification_record :: "(int \<Rightarrow> string) \<Rightarrow> int \<Rightarrow> string \<Rightarrow> json \<Rightarrow> json" where
  "classification_record isoformat today item_name price =
     (let (category, is_food, has_expiry) = keyword_category item_name;
          predicted_expiry =
            (if has_expiry then JStr (predict_expiry_date isoformat today item_name) else JNull)
      in JObj
          [(''category'', JStr category),
           (''confidence'', JFloat (7 / 10)),
           (''brand'', JNull),
           (''enhanced_data'', JObj
              [(''product_type'', JStr category),
               (''warranty_info'', JObj
                  [(''has_warranty'', JBool (category = ''electronics'')),
                   (''warranty_period'',
                      if category = ''electronics'' then JStr ''1 year'' else JNull)]),
               (''expiry_info'', JObj
                  [(''has_expiry'', JBool has_expiry),
                   (''expiry_date'', predicted_expiry),
                   (''is_expiring_soon'', JBool has_expiry)]),
               (''nutritional_info'', JObj
                  [(''is_food'', JBool is_food),
                   (''allergens'', JArr []),
                   (''dietary_tags'', JArr [])]),
               (''price_analysis'', JObj
                  [(''unit_price'', price),
                   (''is_discounted'', JBool False),
                   (''discount_percentage'', JInt 0)])])])"

text \<open>One turn of the loop: it raises what reading the name or the price raises.\<close>

definition fallback_classification_of :: "(int \<Rightarrow> string) \<Rightarrow> int \<Rightarrow> item \<Rightarrow> py_error + json" where
  "fallback_classification_of isoformat today item =
     (case fallback_item_name item of
        Inl e \<Rightarrow> Inl e
      | Inr item_name \<Rightarrow>
          (case fallback_item_price item of
             Inl e \<Rightarrow> Inl e
           | Inr price \<Rightarrow> Inr (classification_record isoformat today item_name price)))"

text \<open>The loop over the items: the first item that raises ends it, and nothing is returned.\<close>

fun create_fallback_classifications ::
  "(int \<Rightarrow> string) \<Rightarrow> int \<Rightarrow> item list \<Rightarrow> py_error + json list" where
  "create_fallback_classifications isoformat today [] = Inr []"
| "create_fallback_classifications isoformat today (item # items) =
     (case fallback_classification_of isoformat today item of
        Inl e \<Rightarrow> Inl e
      | Inr classification \<Rightarrow>
          (case create_fallback_classifications isoformat today items of
             Inl e \<Rightarrow> Inl e
           | Inr classifications \<Rightarrow> Inr (classification # classifications)))"

text \<open>
  The items on which the loop body does not raise: a \<open>ReceiptItem\<close>, and a \<open>dict\<close> whose
  \<open>name\<close> is absent or a string.
\<close>

fun item_ok :: "item \<Rightarrow> bool" where
  "item_ok (ReceiptItem i) = True"
| "item_ok (DictItem (JObj kvs)) =
     (case map_of kvs ''name'' of None \<Rightarrow> True | Some (JStr s) \<Rightarrow> True | Some _ \<Rightarrow> False)"
| "item_ok (DictItem _) = False"

section \<open>The keyword classifier: expiry of a named item\<close>

lemma keyword_category_whole_milk: "keyword_category ''whole milk'' = (''grocery'', True, True)"
  by code_simp

lemma expiry_days_whole_milk: "expiry_days_of ''whole milk'' = 3"
  by code_simp

lemma lower_whole_milk: "lower ''Whole Milk'' = ''whole milk''"
  by (simp add: lower_def)

lemma classification_record_whole_milk:
  "field_at [''category''] (classification_record isoformat today ''whole milk'' price)
     = Some (JStr ''grocery'')"
  "field_at [''enhanced_data'', ''expiry_info'', ''has_expiry'']
     (classification_record isoformat today ''whole milk'' price) = Some (JBool True)"
  "field_at [''enhanced_data'', ''expiry_info'', ''expiry_date'']
     (classification_record isoformat today ''whole milk'' price)
     = Some (JStr (isoformat (today + 3)))"
  by (simp_all add: classification_record_def keyword_category_whole_milk
      predict_expiry_date_def expiry_days_whole_milk)

lemma create_fallback_classifications_single:
  assumes "fallback_item_name item = Inr n" and "fallback_item_price item = Inr p"
  shows "create_fallback_classifications isoformat today [item]
           = Inr [classification_record isoformat today n p]"
  using assms by (simp add: fallback_classification_of_def)

text \<open>
  Claim C9.  The keyword classifier, run on the single item whose name is "Whole Milk" (a
  dict with that name and any other keys, or a \<open>ReceiptItem\<close> with any other fields),
  returns one record with category "grocery", \<open>has_expiry\<close> true and \<open>expiry_date\<close> the ISO
  form of the current date plus 3 days.
\<close>

theorem whole_milk_classification:
  "(map_of kvs ''name'' = Some (JStr ''Whole Milk'')
    \<longrightarrow> (\<exists>c. create_fallback_classifications isoformat today [DictItem (JObj kvs)] = Inr [c]
           \<and> field_at [''category''] c = Some (JStr ''grocery'')
           \<and> field_at [''enhanced_data'', ''expiry_info'', ''has_expiry''] c = Some (JBool True)
           \<and> field_at [''enhanced_data'', ''expiry_info'', ''expiry_date''] c
               = Some (JStr (isoformat (today + 3)))))
   \<and> (\<exists>c. create_fallback_classifications isoformat today
              [ReceiptItem (r\<lparr>ri_name := ''Whole Milk''\<rparr>)] = Inr [c]
           \<and> field_at [''category''] c = Some (JStr ''grocery'')
           \<and> field_at [''enhanced_data'', ''expiry_info'', ''has_expiry''] c = Some (JBool True)
           \<and> field_at [''enhanced_data'', ''expiry_info'', ''expiry_date''] c
               = Some (JStr (isoformat (today + 3))))"
proof (intro conjI impI)
  assume name: "map_of kvs ''name'' = Some (JStr ''Whole Milk'')"
  then have n: "fallback_item_name (DictItem (JObj kvs)) = Inr ''whole milk''"
    by (simp add: lower_whole_milk)
  have p: "fallback_item_price (DictItem (JObj kvs))
      = Inr (case map_of kvs ''price'' of Some v \<Rightarrow> v | None \<Rightarrow> JFloat 0)"
    by simp
  show "\<exists>c. create_fallback_classifications isoformat today [DictItem (JObj kvs)] = Inr [c]
      \<and> field_at [''category''] c = Some (JStr ''grocery'')
      \<and> field_at [''enhanced_data'', ''expiry_info'', ''has_expiry''] c = Some (JBool True)
      \<and> field_at [''enhanced_data'', ''expiry_info'', ''expiry_date''] c
          = Some (JStr (isoformat (today + 3)))"
    by (simp only: create_fallback_classifications_single [OF n p]
        classification_record_whole_milk sum.inject list.inject simp_thms ex_simps)
next
  have n: "fallback_item_name (ReceiptItem (r\<lparr>ri_name := ''Whole Milk''\<rparr>)) = Inr ''whole milk''"
    by (simp add: lower_whole_milk)
  have p: "fallback_item_price (ReceiptItem (r\<lparr>ri_name := ''Whole Milk''\<rparr>))
      = Inr (JFloat (ri_unit_price r))"
    by simp
  show "\<exists>c. create_fallback_classifications isoformat today
        [ReceiptItem (r\<lparr>ri_name := ''Whole Milk''\<rparr>)] = Inr [c]
      \<and> field_at [''category''] c = Some (JStr ''grocery'')
      \<and> field_at [''enhanced_data'', ''expiry_info'', ''has_expiry''] c = Some (JBool True)
      \<and> field_at [''enhanced_data'', ''expiry_info'', ''expiry_date''] c
          = Some (JStr (isoformat (today + 3)))"
    by (simp only: create_fallback_classifications_single [OF n p]
        classification_record_whole_milk sum.inject list.inject simp_thms ex_simps)
qed

theorem whole_milk_classification_witness:
  "map_of [(''name'', JStr ''Whole Milk'')] ''name'' = Some (JStr ''Whole Milk'')
   \<and> (\<exists>c. create_fallback_classifications (\<lambda>d. ''day'') 0
              [DictItem (JObj [(''name'', JStr ''Whole Milk'')])] = Inr [c]
           \<and> field_at [''category''] c = Some (JStr ''grocery'')
           \<and> field_at [''enhanced_data'', ''expiry_info'', ''has_expiry''] c = Some (JBool True)
           \<and> field_at [''enhanced_data'', ''expiry_info'', ''expiry_date''] c
               = Some (JStr ''day''))"
proof -
  have h: "map_of [(''name'', JStr ''Whole Milk'')] ''name'' = Some (JStr ''Whole Milk'')"
    by simp
  from h whole_milk_classification [where kvs = "[(''name'', JStr ''Whole Milk'')]"
      and isoformat = "\<lambda>d. ''day''" and today = 0]
  show ?thesis by blast
qed

section \<open>The keyword classifier: the expiring-soon flag\<close>

lemma record_has_expiry:
  "field_at [''enhanced_data'', ''expiry_info'', ''has_expiry'']
     (classification_record isoformat today n p)
     = Some (JBool (snd (snd (keyword_category n))))"
  by (simp add: classification_record_def Let_def split: prod.split)

lemma record_is_expiring_soon:
  "field_at [''enhanced_data'', ''expiry_info'', ''is_expiring_soon'']
     (classification_record isoformat today n p)
     = Some (JBool (snd (snd (keyword_category n))))"
  by (simp add: classification_record_def Let_def split: prod.split)

lemma record_category:
  "field_at [''category''] (classification_record isoformat today n p)
     = Some (JStr (fst (keyword_category n)))"
  by (simp add: classification_record_def Let_def split: prod.split)

lemma keyword_category_has_expiry:
  "snd (snd (keyword_category n)) \<longleftrightarrow> fst (keyword_category n) \<in> {''grocery'', ''pharmacy''}"
  by (simp add: keyword_category_def)

lemma keyword_category_rice: "keyword_category ''rice'' = (''grocery'', True, True)"
  by code_simp

lemma expiry_days_rice: "expiry_days_of ''rice'' = 365"
  by code_simp

lemma fallback_classification_of_Inr:
  assumes "fallback_classification_of isoformat today item = Inr c"
  shows "\<exists>n p. fallback_item_name item = Inr n \<and> fallback_item_price item = Inr p
           \<and> c = classification_record isoformat today n p"
  using assms by (auto simp: fallback_classification_of_def split: sum.splits)

lemma item_ok_classified:
  assumes "item_ok item"
  shows "\<exists>c. fallback_classification_of isoformat today item = Inr c"
proof (cases item)
  case (ReceiptItem i)
  then show ?thesis by (simp add: fallback_classification_of_def)
next
  case (DictItem j)
  with assms obtain kvs where j: "j = JObj kvs" by (cases j) simp_all
  with assms DictItem show ?thesis
    by (auto simp: fallback_classification_of_def split: option.splits json.splits)
qed

lemma create_fallback_classifications_ok:
  "list_all item_ok items
   \<Longrightarrow> \<exists>cs. create_fallback_classifications isoformat today items = Inr cs"
proof (induction items)
  case Nil
  then show ?case by simp
next
  case (Cons item items)
  then obtain c cs where "fallback_classification_of isoformat today item = Inr c"
    and "create_fallback_classifications isoformat today items = Inr cs"
    using item_ok_classified by fastforce
  then show ?case by simp
qed

lemma create_fallback_classifications_Inr:
  "create_fallback_classifications isoformat today items = Inr cs
   \<Longrightarrow> length cs = length items
       \<and> (\<forall>i < length items. fallback_classification_of isoformat today (items ! i) = Inr (cs ! i))"
proof (induction items arbitrary: cs)
  case Nil
  then show ?case by simp
next
  case (Cons item items)
  then obtain c cs' where c: "fallback_classification_of isoformat today item = Inr c"
    and cs': "create_fallback_classifications isoformat today items = Inr cs'"
    and cs: "cs = c # cs'"
    by (auto split: sum.splits)
  from Cons.IH [OF cs'] c cs show ?case
    by (auto simp: nth_Cons split: nat.splits)
qed

lemma fallback_flags:
  assumes "create_fallback_classifications isoformat today items = Inr cs"
  shows "map (field_at [''enhanced_data'', ''expiry_info'', ''is_expiring_soon'']) cs
           = map (field_at [''enhanced_data'', ''expiry_info'', ''has_expiry'']) cs"
    and "map (field_at [''enhanced_data'', ''expiry_info'', ''has_expiry'']) cs
           = map (\<lambda>item. case fallback_item_name item of
                    Inr n \<Rightarrow> Some (JBool (fst (keyword_category n) \<in> {''grocery'', ''pharmacy''}))
                  | Inl e \<Rightarrow> None) items"
    and "map (field_at [''category'']) cs
           = map (\<lambda>item. case fallback_item_name item of
                    Inr n \<Rightarrow> Some (JStr (fst (keyword_category n)))
                  | Inl e \<Rightarrow> None) items"
  using assms
proof (induction items arbitrary: cs)
  case Nil
  {
    case 1 then show ?case by simp
  next
    case 2 then show ?case by simp
  next
    case 3 then show ?case by simp
  }
next
  case (Cons item items)
  {
    case 1
    then obtain c cs' where c: "fallback_classification_of isoformat today item = Inr c"
      and cs': "create_fallback_classifications isoformat today items = Inr cs'"
      and cs: "cs = c # cs'"
      by (auto split: sum.splits)
    from fallback_classification_of_Inr [OF c] Cons.IH(1) [OF cs'] cs show ?case
      by (auto simp: record_has_expiry record_is_expiring_soon)
  next
    case 2
    then obtain c cs' where c: "fallback_classification_of isoformat today item = Inr c"
      and cs': "create_fallback_classifications isoformat today items = Inr cs'"
      and cs: "cs = c # cs'"
      by (auto split: sum.splits)
    from fallback_classification_of_Inr [OF c] Cons.IH(2) [OF cs'] cs show ?case
      by (auto simp: record_has_expiry keyword_category_has_expiry)
  next
    case 3
    then obtain c cs' where c: "fallback_classification_of isoformat today item = Inr c"
      and cs': "create_fallback_classifications isoformat today items = Inr cs'"
      and cs: "cs = c # cs'"
      by (auto split: sum.splits)
    from fallback_classification_of_Inr [OF c] Cons.IH(3) [OF cs'] cs show ?case
      by (auto simp: record_category)
  }
qed

text \<open>
  Claim C10.  In the records that the keyword classifier returns the flag
  \<open>is_expiring_soon\<close> is the flag \<open>has_expiry\<close>, item by item, and \<open>has_expiry\<close> is true
  exactly for the categories "grocery" (the food keywords) and "pharmacy".  The classifier
  returns records for every list of items that are \<open>ReceiptItem\<close>s or dicts whose name is
  absent or a string.  The item "Rice", whose predicted expiry date lies 365 days ahead, is
  flagged as expiring soon.
\<close>

theorem is_expiring_soon_is_has_expiry:
  "(create_fallback_classifications isoformat today items = Inr cs
    \<longrightarrow> map (field_at [''enhanced_data'', ''expiry_info'', ''is_expiring_soon'']) cs
          = map (field_at [''enhanced_data'', ''expiry_info'', ''has_expiry'']) cs
        \<and> map (field_at [''enhanced_data'', ''expiry_info'', ''has_expiry'']) cs
          = map (\<lambda>item. case fallback_item_name item of
                   Inr n \<Rightarrow> Some (JBool (fst (keyword_category n) \<in> {''grocery'', ''pharmacy''}))
                 | Inl e \<Rightarrow> None) items
        \<and> map (field_at [''category'']) cs
          = map (\<lambda>item. case fallback_item_name item of
                   Inr n \<Rightarrow> Some (JStr (fst (keyword_category n)))
                 | Inl e \<Rightarrow> None) items)
   \<and> (list_all item_ok items
      \<longrightarrow> (\<exists>cs'. create_fallback_classifications isoformat today items = Inr cs'))
   \<and> (map_of kvs ''name'' = Some (JStr ''Rice'')
      \<longrightarrow> (\<exists>c. create_fallback_classifications isoformat today [DictItem (JObj kvs)] = Inr [c]
             \<and> field_at [''enhanced_data'', ''expiry_info'', ''expiry_date''] c
                 = Some (JStr (isoformat (today + 365)))
             \<and> field_at [''enhanced_data'', ''expiry_info'', ''is_expiring_soon''] c
                 = Some (JBool True)))"
proof (intro conjI impI)
  assume "map_of kvs ''name'' = Some (JStr ''Rice'')"
  then have n: "fallback_item_name (DictItem (JObj kvs)) = Inr ''rice''"
    by (simp add: lower_def)
  have p: "fallback_item_price (DictItem (JObj kvs))
      = Inr (case map_of kvs ''price'' of Some v \<Rightarrow> v | None \<Rightarrow> JFloat 0)"
    by simp
  have date: "field_at [''enhanced_data'', ''expiry_info'', ''expiry_date'']
      (classification_record isoformat today ''rice'' p') = Some (JStr (isoformat (today + 365)))"
    for p'
    by (simp add: classification_record_def keyword_category_rice predict_expiry_date_def
        expiry_days_rice)
  have soon: "field_at [''enhanced_data'', ''expiry_info'', ''is_expiring_soon'']
      (classification_record isoformat today ''rice'' p') = Some (JBool True)"
    for p'
    by (simp only: record_is_expiring_soon keyword_category_rice snd_conv)
  show "\<exists>c. create_fallback_classifications isoformat today [DictItem (JObj kvs)] = Inr [c]
      \<and> field_at [''enhanced_data'', ''expiry_info'', ''expiry_date''] c
          = Some (JStr (isoformat (today + 365)))
      \<and> field_at [''enhanced_data'', ''expiry_info'', ''is_expiring_soon''] c = Some (JBool True)"
    by (simp only: create_fallback_classifications_single [OF n p] date soon
        sum.inject list.inject simp_thms ex_simps)
qed (simp_all only: fallback_flags create_fallback_classifications_ok)

theorem is_expiring_soon_is_has_expiry_witness:
  "list_all item_ok [DictItem (JObj [(''name'', JStr ''Rice'')]), DictItem (JObj [])]
   \<and> map_of [(''name'', JStr ''Rice'')] ''name'' = Some (JStr ''Rice'')
   \<and> (\<exists>cs. create_fallback_classifications (\<lambda>d. ''day'') 0
               [DictItem (JObj [(''name'', JStr ''Rice'')]), DictItem (JObj [])] = Inr cs
          \<and> map (field_at [''enhanced_data'', ''expiry_info'', ''is_expiring_soon'']) cs
              = map (field_at [''enhanced_data'', ''expiry_info'', ''has_expiry'']) cs)
   \<and> (\<exists>c. create_fallback_classifications (\<lambda>d. ''day'') 0
              [DictItem (JObj [(''name'', JStr ''Rice'')])] = Inr [c]
          \<and> field_at [''enhanced_data'', ''expiry_info'', ''is_expiring_soon''] c
              = Some (JBool True))"
proof -
  have h1: "list_all item_ok [DictItem (JObj [(''name'', JStr ''Rice'')]), DictItem (JObj [])]"
    by simp
  have h2: "map_of [(''name'', JStr ''Rice'')] ''name'' = Some (JStr ''Rice'')"
    by simp
  note t = is_expiring_soon_is_has_expiry [where isoformat = "\<lambda>d. ''day''" and today = 0
      and kvs = "[(''name'', JStr ''Rice'')]"
      and items = "[DictItem (JObj [(''name'', JStr ''Rice'')]), DictItem (JObj [])]"]
  from h1 t obtain cs where cs: "create_fallback_classifications (\<lambda>d. ''day'') 0
      [DictItem (JObj [(''name'', JStr ''Rice'')]), DictItem (JObj [])] = Inr cs"
    by blast
  from cs is_expiring_soon_is_has_expiry [where isoformat = "\<lambda>d. ''day''" and today = 0
      and kvs = "[(''name'', JStr ''Rice'')]" and cs = cs
      and items = "[DictItem (JObj [(''name'', JStr ''Rice'')]), DictItem (JObj [])]"]
  have "map (field_at [''enhanced_data'', ''expiry_info'', ''is_expiring_soon'']) cs
      = map (field_at [''enhanced_data'', ''expiry_info'', ''has_expiry'']) cs"
    by blast
  with cs h1 h2 t show ?thesis by blast
qed

section \<open>The AI service (\_call\_gemini)\<close>

text \<open>
  The text-completion service is the sequence of outcomes of its successive requests:
  \<open>svc n\<close> is what request number \<open>n\<close> gives, a response text or a failure.  The number of
  requests made so far is threaded through every function that calls the service.
  \<open>_call_gemini\<close> makes up to three requests and raises what the third one raised; the
  sleep between two attempts takes time only and is left out.
\<close>

type_synonym ai_service = "nat \<Rightarrow> py_error + string"

fun call_gemini_attempts :: "nat \<Rightarrow> ai_service \<Rightarrow> nat \<Rightarrow> (py_error + string) \<times> nat" where
  "call_gemini_attempts 0 svc calls = (Inl TransportError, calls)"
| "call_gemini_attempts (Suc remaining) svc calls =
     (case svc calls of
        Inr text \<Rightarrow> (Inr text, Suc calls)
      | Inl e \<Rightarrow> if remaining = 0 then (Inl e, Suc calls)
                else call_gemini_attempts remaining svc (Suc calls))"

definition call_gemini :: "ai_service \<Rightarrow> nat \<Rightarrow> (py_error + string) \<times> nat" where
  "call_gemini svc calls = call_gemini_attempts 3 svc calls"

text \<open>A service that fails every request, and one that answers every request with \<open>{}\<close>.\<close>

definition failing_service :: ai_service where
  "failing_service k = Inl TransportError"

definition answering_service :: ai_service where
  "answering_service k = Inr ''{}''"

section \<open>The AI classifier (\_parse\_classification\_response)\<close>

text \<open>
  \<open>json.loads\<close> is an argument \<open>loads\<close>: \<open>None\<close> when it raises, the parsed value otherwise
  (an object with distinct keys).  The floating-point constants 0.6 and 0.5 are written as
  the rationals 6/10 and 5/10.  The assignment to \<open>self.comprehensive_analysis\<close> is read by
  no modelled function and is left out.
\<close>

definition default_classification :: json where
  "default_classification = JObj
     [(''category'', JStr ''food''),
      (''confidence'', JFloat (6 / 10)),
      (''brand'', JNull),
      (''product_type'', JStr ''food_item''),
      (''warranty_info'', JObj [(''has_warranty'', JBool False)]),
      (''expiry_info'', JObj
         [(''has_expiry'', JBool True), (''expiry_date'', JStr ''2025-07-25''),
          (''is_expiring_soon'', JBool False)]),
      (''nutritional_info'', JObj [(''is_food'', JBool True), (''allergens'', JArr [])]),
      (''price_analysis'', JObj [(''unit_price'', JFloat 0), (''is_discounted'', JBool False)])]"

definition fallback_categories :: "string list" where
  "fallback_categories = [''food'', ''beverages'', ''household'', ''personal_care'', ''other'']"

definition fallback_classification_at :: "nat \<Rightarrow> json" where
  "fallback_classification_at i =
     (let category = fallback_categories ! (i mod length fallback_categories);
          edible = (category \<in> set [''food'', ''beverages''])
      in JObj
          [(''category'', JStr category),
           (''confidence'', JFloat (5 / 10)),
           (''brand'', JNull),
           (''enhanced_data'', JObj
              [(''category'', JStr category),
               (''confidence'', JFloat (5 / 10)),
               (''warranty_info'', JObj [(''has_warranty'', JBool False)]),
               (''expiry_info'', JObj
                  [(''has_expiry'', JBool edible),
                   (''expiry_date'', if edible then JStr ''2025-07-25'' else JNull)]),
               (''nutritional_info'', JObj [(''is_food'', JBool edible)]),
               (''price_analysis'', JObj
                  [(''unit_price'', JFloat 0), (''is_discounted'', JBool False)])])])"

definition fallback_classification :: "nat \<Rightarrow> json list" where
  "fallback_classification expected_count = map fallback_classification_at [0..<expected_count]"

text \<open>\<open>len(x)\<close>: a \<open>TypeError\<close> on a number, a boolean and \<open>None\<close>.\<close>

fun py_len :: "json \<Rightarrow> py_error + nat" where
  "py_len (JArr xs) = Inr (length xs)"
| "py_len (JStr s) = Inr (length s)"
| "py_len (JObj kvs) = Inr (length kvs)"
| "py_len _ = Inl TypeError"

text \<open>The loop \<open>while len(item_classifications) < expected_count: append(default)\<close> on a list.\<close>

function pad_classifications :: "json list \<Rightarrow> nat \<Rightarrow> json list" where
  "pad_classifications xs expected_count =
     (if length xs < expected_count
      then pad_classifications (xs @ [default_classification]) expected_count
      else xs)"
  by pat_completeness auto
termination
  by (relation "measure (\<lambda>(xs, n). n - length xs)") simp_all

declare pad_classifications.simps [simp del]

text \<open>
  The repair of a count mismatch.  Only a list has \<open>append\<close>: the loop body raises
  \<open>AttributeError\<close> on a string or a dict that is too short.  The slice \<open>[:expected_count]\<close>
  works on a list and on a string and raises on a dict.
\<close>

fun fix_count :: "json \<Rightarrow> nat \<Rightarrow> py_error + json" where
  "fix_count (JArr xs) expected_count =
     Inr (JArr (take expected_count (pad_classifications xs expected_count)))"
| "fix_count (JStr s) expected_count =
     (if length s < expected_count then Inl AttributeError else Inr (JStr (take expected_count s)))"
| "fix_count (JObj kvs) expected_count =
     (if length kvs < expected_count then Inl AttributeError else Inl KeyError)"
| "fix_count _ expected_count = Inl TypeError"

text \<open>
  What \<open>for classification in item_classifications\<close> goes through: the elements of a
  list, the characters of a string, the keys of a dict.
\<close>

fun py_iter :: "json \<Rightarrow> py_error + json list" where
  "py_iter (JArr xs) = Inr xs"
| "py_iter (JStr s) = Inr (map (\<lambda>c. JStr [c]) s)"
| "py_iter (JObj kvs) = Inr (map (\<lambda>kv. JStr (fst kv)) kvs)"
| "py_iter _ = Inl TypeError"

text \<open>One record of the result; the three \<open>get\<close> calls raise on anything but a dict.\<close>

definition convert_classification :: "json \<Rightarrow> py_error + json" where
  "convert_classification classification =
     (case py_get classification ''category'' (JStr ''food'') of Inl e \<Rightarrow> Inl e
      | Inr category \<Rightarrow>
     (case py_get classification ''confidence'' (JFloat (6 / 10)) of Inl e \<Rightarrow> Inl e
      | Inr confidence \<Rightarrow>
     (case py_get classification ''brand'' JNull of Inl e \<Rightarrow> Inl e
      | Inr brand \<Rightarrow>
        Inr (JObj [(''category'', category), (''confidence'', confidence), (''brand'', brand),
                   (''enhanced_data'', classification)]))))"

fun convert_classifications :: "json list \<Rightarrow> py_error + json list" where
  "convert_classifications [] = Inr []"
| "convert_classifications (c # cs) =
     (case convert_classification c of Inl e \<Rightarrow> Inl e
      | Inr r \<Rightarrow> (case convert_classifications cs of Inl e \<Rightarrow> Inl e | Inr rs \<Rightarrow> Inr (r # rs)))"

text \<open>The statements of the \<open>try\<close> block that follow \<open>json.loads\<close>.\<close>

definition classifications_of_analysis :: "json \<Rightarrow> nat \<Rightarrow> py_error + json list" where
  "classifications_of_analysis analysis expected_count =
     (case py_get analysis ''item_classifications'' (JArr []) of Inl e \<Rightarrow> Inl e
      | Inr item_classifications \<Rightarrow>
     (case py_len item_classifications of Inl e \<Rightarrow> Inl e
      | Inr n \<Rightarrow>
     (case (if n \<noteq> expected_count then fix_count item_classifications expected_count
            else Inr item_classifications) of Inl e \<Rightarrow> Inl e
      | Inr fixed \<Rightarrow>
     (case py_iter fixed of Inl e \<Rightarrow> Inl e
      | Inr cs \<Rightarrow> convert_classifications cs))))"

definition clean_classification_response :: "string \<Rightarrow> string" where
  "clean_classification_response response =
     (let response1 = strip response
      in if starts_with response1 ''```json'' then strip (slice_to_neg response1 7 3)
         else if starts_with response1 ''```'' then strip (slice_to_neg response1 3 3)
         else response1)"

definition parse_classification_response ::
  "(string \<Rightarrow> json option) \<Rightarrow> string \<Rightarrow> nat \<Rightarrow> json list" where
  "parse_classification_response loads response expected_count =
     (case loads (clean_classification_response response) of
        None \<Rightarrow> fallback_classification expected_count
      | Some analysis \<Rightarrow>
          (case classifications_of_analysis analysis expected_count of
             Inl e \<Rightarrow> fallback_classification expected_count
           | Inr classifications \<Rightarrow> classifications))"

text \<open>
  \<open>_classify_items_with_gemini\<close>.  The \<open>try\<close> block first builds \<open>items_data\<close>, one dict per
  item, which raises \<open>AttributeError\<close> on an item that is neither a \<open>ReceiptItem\<close> nor a
  \<open>dict\<close>; then it calls the service and parses the response.  Whatever the block raises,
  the handler returns \<open>_create_fallback_classifications(items)\<close>, and what that call raises
  leaves the function.  The prompt is built from \<open>items_data\<close> by \<open>json.dumps\<close>, which does
  not fail on these values, and the service is not modelled as a function of the prompt,
  so the prompt does not appear.
\<close>

fun item_data :: "item \<Rightarrow> py_error + json" where
  "item_data (ReceiptItem i) =
     Inr (JObj [(''name'', JStr (ri_name i)),
                (''description'', JStr (case ri_description i of Some d \<Rightarrow> d | None \<Rightarrow> [])),
                (''price'', JFloat (ri_unit_price i)),
                (''quantity'', JFloat (ri_quantity i))])"
| "item_data (DictItem j) =
     (case py_get j ''name'' (JStr ''Unknown'') of Inl e \<Rightarrow> Inl e
      | Inr name \<Rightarrow>
     (case py_get j ''description'' (JStr []) of Inl e \<Rightarrow> Inl e
      | Inr description \<Rightarrow>
     (case py_get j ''price'' (JFloat 0) of Inl e \<Rightarrow> Inl e
      | Inr price \<Rightarrow>
     (case py_get j ''quantity'' (JInt 1) of Inl e \<Rightarrow> Inl e
      | Inr quantity \<Rightarrow>
        Inr (JObj [(''name'', name), (''description'', description), (''price'', price),
                   (''quantity'', quantity)])))))"

fun items_data :: "item list \<Rightarrow> py_error + json list" where
  "items_data [] = Inr []"
| "items_data (item # items) =
     (case item_data item of Inl e \<Rightarrow> Inl e
      | Inr d \<Rightarrow> (case items_data items of Inl e \<Rightarrow> Inl e | Inr ds \<Rightarrow> Inr (d # ds)))"

definition classify_items_with_gemini ::
  "(string \<Rightarrow> json option) \<Rightarrow> (int \<Rightarrow> string) \<Rightarrow> int \<Rightarrow> ai_service \<Rightarrow> nat \<Rightarrow> item list
     \<Rightarrow> (py_error + json list) \<times> nat" where
  "classify_items_with_gemini loads isoformat today svc calls items =
     (case items_data items of
        Inl e \<Rightarrow> (create_fallback_classifications isoformat today items, calls)
      | Inr data \<Rightarrow>
          (case call_gemini svc calls of
             (Inr response, calls') \<Rightarrow>
               (Inr (parse_classification_response loads response (length items)), calls')
           | (Inl e, calls') \<Rightarrow>
               (create_fallback_classifications isoformat today items, calls')))"

section \<open>The classification length invariant\<close>

fun is_dict :: "json \<Rightarrow> bool" where
  "is_dict (JObj kvs) = True"
| "is_dict _ = False"

lemma length_fallback_classification: "length (fallback_classification n) = n"
  by (simp add: fallback_classification_def)

lemma pad_classifications_eq:
  "pad_classifications xs n = xs @ replicate (n - length xs) default_classification"
proof (induction xs n rule: pad_classifications.induct)
  case (1 xs n)
  show ?case
  proof (cases "length xs < n")
    case True
    then have "n - length xs = Suc (n - Suc (length xs))" by simp
    with True "1" show ?thesis
      by (subst pad_classifications.simps) (simp add: replicate_app_Cons_same)
  next
    case False
    then show ?thesis by (subst pad_classifications.simps) simp
  qed
qed

lemma length_convert_classifications:
  "convert_classifications cs = Inr rs \<Longrightarrow> length rs = length cs"
  by (induction cs arbitrary: rs) (auto split: sum.splits)

lemma convert_classifications_dicts:
  "list_all is_dict cs \<Longrightarrow> \<exists>rs. convert_classifications cs = Inr rs"
proof (induction cs)
  case Nil
  then show ?case by simp
next
  case (Cons c cs)
  then obtain kvs where c: "c = JObj kvs" by (cases c) simp_all
  from Cons obtain rs where "convert_classifications cs = Inr rs" by auto
  with c show ?case by (simp add: convert_classification_def)
qed

lemma length_fix_count:
  "fix_count j n = Inr fixed \<Longrightarrow> py_iter fixed = Inr cs \<Longrightarrow> length cs = n"
  by (cases j) (auto simp: pad_classifications_eq split: if_splits)

lemma length_keep_count:
  "py_len j = Inr n \<Longrightarrow> py_iter j = Inr cs \<Longrightarrow> length cs = n"
  by (cases j) auto

lemma length_classifications_of_analysis:
  assumes "classifications_of_analysis analysis n = Inr cs"
  shows "length cs = n"
proof -
  from assms obtain ics m fixed xs where
    len: "py_len ics = Inr m"
    and fixed: "(if m \<noteq> n then fix_count ics n else Inr ics) = Inr fixed"
    and iter: "py_iter fixed = Inr xs"
    and conv: "convert_classifications xs = Inr cs"
    by (auto simp: classifications_of_analysis_def split: sum.splits)
  have "length xs = n"
  proof (cases "m = n")
    case True
    with fixed len iter show ?thesis by (auto dest: length_keep_count)
  next
    case False
    with fixed iter show ?thesis by (auto dest: length_fix_count)
  qed
  with conv show ?thesis by (simp add: length_convert_classifications)
qed

lemma length_parse_classification_response:
  "length (parse_classification_response loads response n) = n"
  by (auto simp: parse_classification_response_def length_fallback_classification
      length_classifications_of_analysis split: option.splits sum.splits)

lemma classifications_of_analysis_list:
  assumes "map_of kvs ''item_classifications'' = Some (JArr xs)"
  shows "classifications_of_analysis (JObj kvs) n
           = convert_classifications
               (take n (xs @ replicate (n - length xs) default_classification))"
  using assms
  by (simp add: classifications_of_analysis_def pad_classifications_eq)

lemma convert_classifications_not_dicts:
  "\<not> list_all is_dict cs \<Longrightarrow> \<exists>e. convert_classifications cs = Inl e"
proof (induction cs)
  case Nil
  then show ?case by simp
next
  case (Cons c cs)
  show ?case
  proof (cases "is_dict c")
    case True
    with Cons obtain e where "convert_classifications cs = Inl e" by auto
    then show ?thesis by (simp split: sum.splits)
  next
    case False
    then have "convert_classification c = Inl AttributeError"
      by (cases c) (simp_all add: convert_classification_def)
    then show ?thesis by simp
  qed
qed

lemma is_dict_default_classification: "is_dict default_classification"
  by (simp add: default_classification_def)

lemma list_all_is_dict_padded:
  "list_all is_dict (take n (xs @ replicate (n - length xs) default_classification))
     \<longleftrightarrow> list_all is_dict (take n xs)"
  by (auto simp: list_all_iff is_dict_default_classification dest: in_set_takeD)

lemma item_ok_item_data: "item_ok item \<Longrightarrow> \<exists>d. item_data item = Inr d"
proof (cases item)
  case (ReceiptItem i)
  then show ?thesis by simp
next
  case (DictItem j)
  assume "item_ok item"
  with DictItem obtain kvs where "j = JObj kvs" by (cases j) simp_all
  with DictItem show ?thesis by simp
qed

lemma items_ok_items_data: "list_all item_ok items \<Longrightarrow> \<exists>ds. items_data items = Inr ds"
proof (induction items)
  case Nil
  then show ?case by simp
next
  case (Cons item items)
  then obtain d ds where "item_data item = Inr d" and "items_data items = Inr ds"
    using item_ok_item_data by fastforce
  then show ?case by simp
qed

lemma classify_items_failed_call:
  assumes "fst (call_gemini svc calls) = Inl e"
  shows "fst (classify_items_with_gemini loads isoformat today svc calls items)
           = create_fallback_classifications isoformat today items"
  using assms
  by (auto simp: classify_items_with_gemini_def split: prod.splits sum.splits)

lemma classify_items_answered:
  assumes "list_all item_ok items" and "call_gemini svc calls = (Inr response, calls')"
  shows "classify_items_with_gemini loads isoformat today svc calls items
           = (Inr (parse_classification_response loads response (length items)), calls')"
proof -
  from assms(1) obtain ds where "items_data items = Inr ds"
    using items_ok_items_data by blast
  with assms(2) show ?thesis
    by (simp add: classify_items_with_gemini_def)
qed

lemma classify_items_total:
  assumes "list_all item_ok items"
  shows "\<exists>cs. fst (classify_items_with_gemini loads isoformat today svc calls items) = Inr cs
           \<and> length cs = length items"
proof -
  from assms obtain ds where ds: "items_data items = Inr ds"
    using items_ok_items_data by blast
  from assms obtain fs where fs: "create_fallback_classifications isoformat today items = Inr fs"
    using create_fallback_classifications_ok by blast
  then have "length fs = length items"
    using create_fallback_classifications_Inr by blast
  with ds fs show ?thesis
    by (auto simp: classify_items_with_gemini_def length_parse_classification_response
        split: prod.splits sum.splits)
qed

text \<open>Parsers, services and items for the concrete instances below.\<close>

definition sample_analysis :: "(string \<times> json) list" where
  "sample_analysis =
     [(''item_classifications'', JArr [JObj [(''category'', JStr ''dairy'')]])]"

definition sample_loads :: "string \<Rightarrow> json option" where
  "sample_loads s = (if s = ''{}'' then Some (JObj sample_analysis) else None)"

definition null_list_analysis :: "(string \<times> json) list" where
  "null_list_analysis = [(''item_classifications'', JArr [JNull])]"

definition null_list_loads :: "string \<Rightarrow> json option" where
  "null_list_loads s = Some (JObj null_list_analysis)"

definition sample_isoformat :: "int \<Rightarrow> string" where
  "sample_isoformat d = ''2025-01-01''"

definition sample_items :: "item list" where
  "sample_items =
     [DictItem (JObj [(''name'', JStr ''Whole Milk''), (''price'', JFloat 55),
                      (''quantity'', JInt 1), (''total_price'', JFloat 55)]),
      DictItem (JObj [(''name'', JStr ''Laptop''), (''price'', JFloat 900),
                      (''quantity'', JInt 1), (''total_price'', JFloat 900)])]"

text \<open>
  Claim C4 as stated fails in two ways.  An item comes unvalidated from \<open>json.loads\<close>: on
  the item \<open>{"name": null}\<close> with the service failing, and on an item that is the bare
  string \<open>"Milk"\<close> even with the service answering, the keyword classifier raises
  \<open>AttributeError\<close> inside the handler and classification returns no record at all.  And
  when the response parses to \<open>{"item_classifications": [null]}\<close> with two items expected,
  the result is not that list padded with the default record but the blind fallback, whose
  records have confidence 0.5.
\<close>

theorem classification_length_counterexample:
  "fst (classify_items_with_gemini sample_loads sample_isoformat 0 failing_service 0
          [DictItem (JObj [(''name'', JNull)])]) = Inl AttributeError
   \<and> fst (classify_items_with_gemini sample_loads sample_isoformat 0 answering_service 0
          [DictItem (JStr ''Milk'')]) = Inl AttributeError
   \<and> parse_classification_response null_list_loads ''{}'' 2 = fallback_classification 2
   \<and> map (field_at [''confidence'']) (parse_classification_response null_list_loads ''{}'' 2)
       = [Some (JFloat (5 / 10)), Some (JFloat (5 / 10))]"
proof -
  have a: "fst (classify_items_with_gemini sample_loads sample_isoformat 0 failing_service 0
      [DictItem (JObj [(''name'', JNull)])]) = Inl AttributeError"
    by (simp add: classify_items_with_gemini_def call_gemini_def failing_service_def
        fallback_classification_of_def eval_nat_numeral)
  have b: "fst (classify_items_with_gemini sample_loads sample_isoformat 0 answering_service 0
      [DictItem (JStr ''Milk'')]) = Inl AttributeError"
    by (simp add: classify_items_with_gemini_def fallback_classification_of_def)
  have c: "parse_classification_response null_list_loads ''{}'' 2 = fallback_classification 2"
    by (simp add: parse_classification_response_def null_list_loads_def null_list_analysis_def
        classifications_of_analysis_def pad_classifications_eq convert_classification_def
        eval_nat_numeral)
  have d: "map (field_at [''confidence'']) (fallback_classification 2)
      = [Some (JFloat (5 / 10)), Some (JFloat (5 / 10))]"
    by (simp add: fallback_classification_def fallback_classification_at_def Let_def
        eval_nat_numeral upt_rec)
  from a b c d show ?thesis by simp
qed

text \<open>
  Claim C4, amended.  For every batch of N items that are \<open>ReceiptItem\<close>s or dicts whose
  name is absent or a string, classification returns exactly N records on every path.  When
  the call to the service succeeds the result is that of \<open>_parse_classification_response\<close>,
  which has N records for every response: when the response parses to an object whose
  \<open>item_classifications\<close> is a list whose first N entries are all objects, the result is
  that list, padded with the default record (category "food", confidence 0.6) or cut to N,
  converted record by record, so that record \<open>i\<close> comes from classification \<open>i\<close>; when one
  of these entries is not an object, or the response does not parse, the result is
  \<open>_fallback_classification(N)\<close>.  When the call to the service fails the result is that
  of \<open>_create_fallback_classifications\<close>, whose record \<open>i\<close> is computed from item \<open>i\<close>.
\<close>

theorem classification_length:
  "(list_all item_ok items
    \<longrightarrow> (\<exists>cs. fst (classify_items_with_gemini loads isoformat today svc calls items) = Inr cs
           \<and> length cs = length items))
   \<and> (list_all item_ok items \<and> call_gemini svc calls = (Inr answer, calls')
      \<longrightarrow> classify_items_with_gemini loads isoformat today svc calls items
            = (Inr (parse_classification_response loads answer (length items)), calls'))
   \<and> length (parse_classification_response loads response n) = n
   \<and> length (fallback_classification n) = n
   \<and> (loads (clean_classification_response response) = Some (JObj kvs)
        \<and> map_of kvs ''item_classifications'' = Some (JArr xs)
        \<and> list_all is_dict (take n xs)
      \<longrightarrow> convert_classifications
              (take n (xs @ replicate (n - length xs) default_classification))
            = Inr (parse_classification_response loads response n))
   \<and> (loads (clean_classification_response response) = Some (JObj kvs)
        \<and> map_of kvs ''item_classifications'' = Some (JArr xs)
        \<and> \<not> list_all is_dict (take n xs)
      \<longrightarrow> parse_classification_response loads response n = fallback_classification n)
   \<and> (\<exists>d. convert_classification default_classification = Inr d
          \<and> field_at [''category''] d = Some (JStr ''food'')
          \<and> field_at [''confidence''] d = Some (JFloat (6 / 10)))
   \<and> (loads (clean_classification_response response') = None
      \<longrightarrow> parse_classification_response loads response' n = fallback_classification n)
   \<and> (fst (call_gemini svc' calls) = Inl e
      \<longrightarrow> fst (classify_items_with_gemini loads isoformat today svc' calls items)
            = create_fallback_classifications isoformat today items)
   \<and> (list_all item_ok items
      \<longrightarrow> (\<exists>fs. create_fallback_classifications isoformat today items = Inr fs
           \<and> length fs = length items
           \<and> (\<forall>i < length items.
                 fallback_classification_of isoformat today (items ! i) = Inr (fs ! i))))"
proof -
  have total: "\<exists>cs. fst (classify_items_with_gemini loads isoformat today svc calls items) = Inr cs
      \<and> length cs = length items"
    if "list_all item_ok items"
    using that by (rule classify_items_total)
  have answered: "classify_items_with_gemini loads isoformat today svc calls items
      = (Inr (parse_classification_response loads answer (length items)), calls')"
    if "list_all item_ok items" and "call_gemini svc calls = (Inr answer, calls')"
    using that by (rule classify_items_answered)
  have padded: "convert_classifications
        (take n (xs @ replicate (n - length xs) default_classification))
      = Inr (parse_classification_response loads response n)"
    if l: "loads (clean_classification_response response) = Some (JObj kvs)"
      and k: "map_of kvs ''item_classifications'' = Some (JArr xs)"
      and d: "list_all is_dict (take n xs)"
  proof -
    from d have "list_all is_dict
        (take n (xs @ replicate (n - length xs) default_classification))"
      by (simp only: list_all_is_dict_padded)
    then obtain rs where "convert_classifications
        (take n (xs @ replicate (n - length xs) default_classification)) = Inr rs"
      using convert_classifications_dicts by blast
    with l k show ?thesis
      by (simp add: parse_classification_response_def classifications_of_analysis_list)
  qed
  have blind: "parse_classification_response loads response n = fallback_classification n"
    if l: "loads (clean_classification_response response) = Some (JObj kvs)"
      and k: "map_of kvs ''item_classifications'' = Some (JArr xs)"
      and d: "\<not> list_all is_dict (take n xs)"
  proof -
    from d have "\<not> list_all is_dict
        (take n (xs @ replicate (n - length xs) default_classification))"
      using list_all_is_dict_padded by blast
    then obtain e where "convert_classifications
        (take n (xs @ replicate (n - length xs) default_classification)) = Inl e"
      using convert_classifications_not_dicts by blast
    with l k show ?thesis
      by (simp add: parse_classification_response_def classifications_of_analysis_list)
  qed
  have dflt: "\<exists>d. convert_classification default_classification = Inr d
      \<and> field_at [''category''] d = Some (JStr ''food'')
      \<and> field_at [''confidence''] d = Some (JFloat (6 / 10))"
    by (simp add: convert_classification_def default_classification_def)
  have unparsed: "parse_classification_response loads response' n = fallback_classification n"
    if "loads (clean_classification_response response') = None"
    using that by (simp add: parse_classification_response_def)
  have failed: "fst (classify_items_with_gemini loads isoformat today svc' calls items)
      = create_fallback_classifications isoformat today items"
    if "fst (call_gemini svc' calls) = Inl e"
    using that by (rule classify_items_failed_call)
  have keyword: "\<exists>fs. create_fallback_classifications isoformat today items = Inr fs
      \<and> length fs = length items
      \<and> (\<forall>i < length items.
            fallback_classification_of isoformat today (items ! i) = Inr (fs ! i))"
    if "list_all item_ok items"
  proof -
    from that obtain fs where fs: "create_fallback_classifications isoformat today items = Inr fs"
      using create_fallback_classifications_ok by blast
    with create_fallback_classifications_Inr [OF fs] show ?thesis by blast
  qed
  show ?thesis
    using total answered padded blind dflt unparsed failed keyword
    by (simp only: length_parse_classification_response length_fallback_classification
        simp_thms) blast
qed

theorem classification_length_witness:
  "list_all item_ok sample_items
   \<and> length sample_items = 2
   \<and> call_gemini answering_service 0 = (Inr ''{}'', 1)
   \<and> classify_items_with_gemini sample_loads sample_isoformat 0 answering_service 0 sample_items
       = (Inr (parse_classification_response sample_loads ''{}'' 2), 1)
   \<and> sample_loads (clean_classification_response ''{}'') = Some (JObj sample_analysis)
   \<and> map_of sample_analysis ''item_classifications''
       = Some (JArr [JObj [(''category'', JStr ''dairy'')]])
   \<and> list_all is_dict (take 2 [JObj [(''category'', JStr ''dairy'')]])
   \<and> map (field_at [''category'']) (parse_classification_response sample_loads ''{}'' 2)
       = [Some (JStr ''dairy''), Some (JStr ''food'')]
   \<and> map (field_at [''confidence'']) (parse_classification_response sample_loads ''{}'' 2)
       = [Some (JFloat (6 / 10)), Some (JFloat (6 / 10))]
   \<and> null_list_loads (clean_classification_response ''{}'') = Some (JObj null_list_analysis)
   \<and> map_of null_list_analysis ''item_classifications'' = Some (JArr [JNull])
   \<and> \<not> list_all is_dict (take 2 [JNull])
   \<and> parse_classification_response null_list_loads ''{}'' 2 = fallback_classification 2
   \<and> sample_loads (clean_classification_response ''nonsense'') = None
   \<and> parse_classification_response sample_loads ''nonsense'' 2 = fallback_classification 2
   \<and> fst (call_gemini failing_service 0) = Inl TransportError
   \<and> (\<exists>fs. fst (classify_items_with_gemini sample_loads sample_isoformat 0 failing_service 0
                   sample_items) = Inr fs
          \<and> length fs = 2
          \<and> fallback_classification_of sample_isoformat 0 (sample_items ! 1) = Inr (fs ! 1))"
proof -
  have h1: "list_all item_ok sample_items"
    by (simp add: sample_items_def)
  have len: "length sample_items = 2"
    by (simp add: sample_items_def)
  have h2: "call_gemini answering_service 0 = (Inr ''{}'', 1)"
    by (simp add: call_gemini_def answering_service_def eval_nat_numeral)
  have h3: "sample_loads (clean_classification_response ''{}'') = Some (JObj sample_analysis)"
    by (simp add: sample_loads_def clean_classification_response_def strip_def is_space_def)
  have h4: "map_of sample_analysis ''item_classifications''
      = Some (JArr [JObj [(''category'', JStr ''dairy'')]])"
    by (simp add: sample_analysis_def)
  have h5: "list_all is_dict (take 2 [JObj [(''category'', JStr ''dairy'')]])"
    by simp
  have h6: "null_list_loads (clean_classification_response ''{}'')
      = Some (JObj null_list_analysis)"
    by (simp add: null_list_loads_def)
  have h7: "map_of null_list_analysis ''item_classifications'' = Some (JArr [JNull])"
    by (simp add: null_list_analysis_def)
  have h8: "\<not> list_all is_dict (take 2 [JNull])"
    by simp
  have h9: "sample_loads (clean_classification_response ''nonsense'') = None"
    by (simp add: sample_loads_def clean_classification_response_def strip_def is_space_def)
  have h10: "fst (call_gemini failing_service 0) = Inl TransportError"
    by (simp add: call_gemini_def failing_service_def eval_nat_numeral)
  note t = classification_length [where loads = sample_loads and isoformat = sample_isoformat
      and today = 0 and svc = answering_service and calls = 0 and items = sample_items
      and answer = "''{}''" and calls' = 1 and response = "''{}''" and n = 2
      and kvs = sample_analysis and xs = "[JObj [(''category'', JStr ''dairy'')]]"
      and response' = "''nonsense''" and svc' = failing_service and e = TransportError]
  note u = classification_length [where loads = null_list_loads and response = "''{}''"
      and n = 2 and kvs = null_list_analysis and xs = "[JNull]" and items = sample_items]
  from t h1 h2 len have c1: "classify_items_with_gemini sample_loads sample_isoformat 0
      answering_service 0 sample_items
      = (Inr (parse_classification_response sample_loads ''{}'' 2), 1)"
    by simp
  from t h3 h4 h5 have "convert_classifications
      (take 2 ([JObj [(''category'', JStr ''dairy'')]]
         @ replicate (2 - length [JObj [(''category'', JStr ''dairy'')]])
             default_classification))
      = Inr (parse_classification_response sample_loads ''{}'' 2)"
    by blast
  then have "Inr (parse_classification_response sample_loads ''{}'' 2)
      = convert_classifications
          (take 2 ([JObj [(''category'', JStr ''dairy'')]]
             @ replicate (2 - length [JObj [(''category'', JStr ''dairy'')]])
                 default_classification))"
    by simp
  then have c2: "map (field_at [''category''])
        (parse_classification_response sample_loads ''{}'' 2)
        = [Some (JStr ''dairy''), Some (JStr ''food'')]
      \<and> map (field_at [''confidence'']) (parse_classification_response sample_loads ''{}'' 2)
        = [Some (JFloat (6 / 10)), Some (JFloat (6 / 10))]"
    by (simp add: convert_classification_def default_classification_def eval_nat_numeral)
  from u h6 h7 h8 have c3: "parse_classification_response null_list_loads ''{}'' 2
      = fallback_classification 2"
    by blast
  from t h9 have c4: "parse_classification_response sample_loads ''nonsense'' 2
      = fallback_classification 2"
    by blast
  from t h10 have c5: "fst (classify_items_with_gemini sample_loads sample_isoformat 0
      failing_service 0 sample_items)
      = create_fallback_classifications sample_isoformat 0 sample_items"
    by blast
  from t h1 obtain fs where fs: "create_fallback_classifications sample_isoformat 0 sample_items
      = Inr fs" "length fs = length sample_items"
    "\<forall>i < length sample_items.
       fallback_classification_of sample_isoformat 0 (sample_items ! i) = Inr (fs ! i)"
    by blast
  from fs len have c6: "\<exists>fs. fst (classify_items_with_gemini sample_loads sample_isoformat 0
        failing_service 0 sample_items) = Inr fs
      \<and> length fs = 2
      \<and> fallback_classification_of sample_isoformat 0 (sample_items ! 1) = Inr (fs ! 1)"
    using c5 by auto
  from h1 len h2 c1 h3 h4 h5 c2 h6 h7 h8 c3 h9 c4 h10 c6 show ?thesis
    by blast
qed

section \<open>Regular expressions (the patterns of \_fallback\_regex\_extraction)\<close>

text \<open>
  The patterns of the extractor are sequences of single-character classes under the
  quantifiers \<open>?\<close>, \<open>*\<close>, \<open>+\<close> (greedy) and \<open>+?\<close> (lazy), with capture groups around
  parts of the sequence and \<open>$\<close> at the end.  \<open>rx_match\<close> is the backtracking search of
  \<open>re.match\<close> on such a sequence: it tries the alternatives of each quantifier in the
  order Python tries them and returns the first complete match, as the list of the
  positions of the group brackets (\<open>Mark\<close>) in pattern order.  \<open>LazyStar\<close> is the rest of
  a \<open>+?\<close> once its first character is taken.
\<close>

datatype rx = One "char \<Rightarrow> bool" | Opt "char \<Rightarrow> bool" | Star "char \<Rightarrow> bool"
  | Plus "char \<Rightarrow> bool" | LazyPlus "char \<Rightarrow> bool" | LazyStar "char \<Rightarrow> bool"
  | Mark | Eol

function (sequential) rx_match :: "rx list \<Rightarrow> string \<Rightarrow> nat \<Rightarrow> nat list option" where
  "rx_match [] s pos = Some []"
| "rx_match (Eol # r) s pos =
     (if s = [] \<or> s = [CHR 0x0A] then rx_match r s pos else None)"
| "rx_match (Mark # r) s pos = map_option (Cons pos) (rx_match r s pos)"
| "rx_match (One c # r) [] pos = None"
| "rx_match (One c # r) (x # xs) pos = (if c x then rx_match r xs (Suc pos) else None)"
| "rx_match (Opt c # r) [] pos = rx_match r [] pos"
| "rx_match (Opt c # r) (x # xs) pos =
     (if c x
      then (case rx_match r xs (Suc pos) of Some m \<Rightarrow> Some m
            | None \<Rightarrow> rx_match r (x # xs) pos)
      else rx_match r (x # xs) pos)"
| "rx_match (Star c # r) [] pos = rx_match r [] pos"
| "rx_match (Star c # r) (x # xs) pos =
     (if c x
      then (case rx_match (Star c # r) xs (Suc pos) of Some m \<Rightarrow> Some m
            | None \<Rightarrow> rx_match r (x # xs) pos)
      else rx_match r (x # xs) pos)"
| "rx_match (Plus c # r) [] pos = None"
| "rx_match (Plus c # r) (x # xs) pos =
     (if c x then rx_match (Star c # r) xs (Suc pos) else None)"
| "rx_match (LazyPlus c # r) [] pos = None"
| "rx_match (LazyPlus c # r) (x # xs) pos =
     (if c x then rx_match (LazyStar c # r) xs (Suc pos) else None)"
| "rx_match (LazyStar c # r) [] pos = rx_match r [] pos"
| "rx_match (LazyStar c # r) (x # xs) pos =
     (case rx_match r (x # xs) pos of Some m \<Rightarrow> Some m
      | None \<Rightarrow> if c x then rx_match (LazyStar c # r) xs (Suc pos) else None)"
  by pat_completeness auto
termination
  by (relation "measures [\<lambda>(p, s, n). length s, \<lambda>(p, s, n). length p]") simp_all

text \<open>The character classes.\<close>

definition is_digit :: "char \<Rightarrow> bool" where
  "is_digit c = (let n = (of_char c :: nat) in 48 \<le> n \<and> n \<le> 57)"

definition is_upper_az :: "char \<Rightarrow> bool" where
  "is_upper_az c = (let n = (of_char c :: nat) in 65 \<le> n \<and> n \<le> 90)"

definition is_az :: "char \<Rightarrow> bool" where
  "is_az c = (let n = (of_char c :: nat) in (65 \<le> n \<and> n \<le> 90) \<or> (97 \<le> n \<and> n \<le> 122))"

text \<open>
  \<open>str.isalpha\<close> on the code points below U+0100: the ASCII letters, U+00AA, U+00B5,
  U+00BA and U+00C0 to U+00FF without U+00D7 and U+00F7.
\<close>

definition is_alpha :: "char \<Rightarrow> bool" where
  "is_alpha c =
     (let n = (of_char c :: nat)
      in (65 \<le> n \<and> n \<le> 90) \<or> (97 \<le> n \<and> n \<le> 122) \<or> n = 170 \<or> n = 181 \<or> n = 186
         \<or> (192 \<le> n \<and> n \<le> 255 \<and> n \<noteq> 215 \<and> n \<noteq> 247))"

text \<open>\<open>.\<close> is any character but the newline; a literal under \<open>re.IGNORECASE\<close>.\<close>

definition any_char :: "char \<Rightarrow> bool" where
  "any_char c = (c \<noteq> CHR 0x0A)"

definition lit :: "char \<Rightarrow> char \<Rightarrow> bool" where
  "lit a c = (c = a)"

definition lit_ci :: "char \<Rightarrow> char \<Rightarrow> bool" where
  "lit_ci a c = (lower_char c = lower_char a)"

text \<open>
  The rupee sign is U+20B9, which no character of a modelled string is: the pattern
  element for it matches nothing.
\<close>

definition rupee :: "char \<Rightarrow> bool" where
  "rupee c = False"

definition separator_char :: "char \<Rightarrow> bool" where
  "separator_char c = (c \<in> set ''*=-:_~'' \<or> is_space c)"

definition separator_pattern :: "rx list" where
  "separator_pattern = [Plus separator_char, Eol]"

text \<open>\<open>([0-9]+\.?[0-9]*)\s*$\<close>, the common tail of the price patterns.\<close>

definition number_tail :: "rx list" where
  "number_tail =
     [Mark, Plus is_digit, Opt (lit CHR ''.''), Star is_digit, Mark, Star is_space, Eol]"

definition same_line_patterns :: "rx list list" where
  "same_line_patterns =
     [[Mark, LazyPlus any_char, Mark, Plus is_space, One (lit CHR ''$'')] @ number_tail,
      [Mark, LazyPlus any_char, Mark, Plus is_space, One rupee, Star is_space] @ number_tail,
      [Mark, LazyPlus any_char, Mark, Plus is_space,
       One (lit_ci CHR ''I''), One (lit_ci CHR ''N''), One (lit_ci CHR ''R''), Plus is_space]
        @ number_tail,
      [Mark, LazyPlus any_char, Mark, Plus is_space,
       One (lit_ci CHR ''R''), One (lit_ci CHR ''s''), Opt (lit CHR ''.''), Star is_space]
        @ number_tail]"

definition price_patterns :: "rx list list" where
  "price_patterns =
     [[One (lit CHR ''$'')] @ number_tail,
      [One rupee, Star is_space] @ number_tail,
      [One (lit_ci CHR ''I''), One (lit_ci CHR ''N''), One (lit_ci CHR ''R''), Plus is_space]
        @ number_tail,
      [One (lit_ci CHR ''R''), One (lit_ci CHR ''s''), Opt (lit CHR ''.''), Star is_space]
        @ number_tail,
      number_tail]"

definition item_patterns :: "rx list list" where
  "item_patterns =
     [[One is_upper_az, Plus (\<lambda>c. is_az c \<or> is_space c), Eol],
      [One is_upper_az, Plus (\<lambda>c. is_az c \<or> is_space c \<or> c = CHR ''-''), Eol],
      [One is_az, Plus (\<lambda>c. is_az c \<or> is_space c), Eol],
      [One is_az, Plus (\<lambda>c. is_az c \<or> is_space c \<or> c = CHR ''&'' \<or> c = CHR ''-''), Eol]]"

text \<open>\<open>s[a:b]\<close> for \<open>0 \<le> a \<le> b\<close>.\<close>

definition substring :: "string \<Rightarrow> nat \<Rightarrow> nat \<Rightarrow> string" where
  "substring s a b = take (b - a) (drop a s)"

text \<open>
  \<open>float(text)\<close> on a text of the form \<open>[0-9]+\.?[0-9]*\<close>, the only form the patterns
  capture: the exact decimal value.  Any other text is \<open>None\<close> (the \<open>ValueError\<close> branch).
\<close>

definition digits_value :: "string \<Rightarrow> nat" where
  "digits_value s = foldl (\<lambda>acc c. 10 * acc + (of_char c - 48)) 0 s"

definition py_float :: "string \<Rightarrow> rat option" where
  "py_float s =
     (let whole = takeWhile is_digit s; rest = dropWhile is_digit s
      in if whole = [] then None
         else (case rest of
                 [] \<Rightarrow> Some (of_nat (digits_value whole))
               | d # decimals \<Rightarrow>
                   if d = CHR ''.'' \<and> list_all is_digit decimals
                   then Some (of_nat (digits_value whole)
                              + of_nat (digits_value decimals) / 10 ^ length decimals)
                   else None))"

section \<open>Receipts\<close>

text \<open>
  Modelled from the spec: the class \<open>Receipt\<close> of \<open>models/receipt.py\<close>, which is not among the
  source files.  The fields are those the spec lists for the upstream input (merchant name,
  address, phone, tax id, date, total amount, payment method, raw OCR text, optional
  pre-parsed item list, owning user) and \<open>graph_builder.py\<close> reads, with \<open>id\<close> and
  \<open>card_last_four\<close>, which it reads too.  An optional field that is \<open>None\<close> is \<open>None\<close> here;
  the date is its day number.
\<close>

record receipt =
  rc_id :: string
  rc_user_id :: string
  rc_merchant_name :: string
  rc_merchant_address :: "string option"
  rc_merchant_phone :: "string option"
  rc_merchant_tax_id :: "string option"
  rc_date :: int
  rc_total_amount :: "rat option"
  rc_payment_method :: "string option"
  rc_card_last_four :: "string option"
  rc_raw_text :: string
  rc_items :: "receipt_item list"

section \<open>The deterministic extractor (\_fallback\_regex\_extraction)\<close>

definition skip_words :: "string list" where
  "skip_words =
     [''receipt'', ''company'', ''address'', ''date'', ''manager'', ''total'', ''thank'',
      ''description'', ''price'', ''lorem'', ''ipsum'',
      ''tax'', ''taxes'', ''subtotal'', ''amount'', ''payment'', ''cash'', ''card'', ''change'',
      ''bill'', ''invoice'', ''customer'',
      ''phone'', ''email'', ''website'', ''store'', ''shop'', ''market'', ''super'', ''makkal'',
      ''time'', ''number'', ''id'',
      ''transaction'', ''reference'', ''inr'', ''usd'', ''currency'', ''balance'', ''tender'',
      ''received'']"

text \<open>\<open>s.split('\n')\<close>\<close>

fun split_lines :: "string \<Rightarrow> string list" where
  "split_lines [] = [[]]"
| "split_lines (c # cs) =
     (if c = CHR 0x0A then [] # split_lines cs
      else (case split_lines cs of line # lines \<Rightarrow> (c # line) # lines | [] \<Rightarrow> [[c]]))"

text \<open>
  \<open>receipt and hasattr(receipt, 'total_amount') and receipt.total_amount and
  abs(price - receipt.total_amount) < 0.01\<close>, as \<open>if not is_total\<close> reads it: false without a
  receipt and when the total is \<open>None\<close> or 0.
\<close>

definition is_total :: "receipt option \<Rightarrow> rat \<Rightarrow> bool" where
  "is_total receipt price =
     (case receipt of
        None \<Rightarrow> False
      | Some r \<Rightarrow>
          (case rc_total_amount r of
             None \<Rightarrow> False
           | Some amount \<Rightarrow> amount \<noteq> 0 \<and> \<bar>price - amount\<bar> < 1 / 100))"

text \<open>The dict that the extractor makes of a name and a price.\<close>

definition item_dict :: "string \<Rightarrow> rat \<Rightarrow> json" where
  "item_dict item_name price =
     JObj [(''name'', JStr item_name), (''price'', JFloat price), (''quantity'', JInt 1),
           (''total_price'', JFloat price)]"

text \<open>
  The loop over \<open>same_line_patterns\<close>: the first pattern that matches with a valid name, a
  price between 1 and 10000 and a price that is not the total gives the item and ends the
  loop; a pattern that matches otherwise lets the loop go on.
\<close>

fun same_line_item :: "rx list list \<Rightarrow> receipt option \<Rightarrow> string \<Rightarrow> (string \<times> rat) option" where
  "same_line_item [] receipt line = None"
| "same_line_item (pattern # patterns) receipt line =
     (case rx_match pattern line 0 of
        Some [a, b, c, d] \<Rightarrow>
          (let item_name = strip (substring line a b)
           in case py_float (substring line c d) of
                None \<Rightarrow> same_line_item patterns receipt line
              | Some price \<Rightarrow>
                  if 3 \<le> length item_name \<and> length item_name \<le> 50
                     \<and> list_ex is_alpha item_name \<and> 1 \<le> price \<and> price \<le> 10000
                  then (if \<not> is_total receipt price then Some (item_name, price)
                        else same_line_item patterns receipt line)
                  else same_line_item patterns receipt line)
      | _ \<Rightarrow> same_line_item patterns receipt line)"

text \<open>The loop over \<open>price_patterns\<close>.\<close>

fun price_of_line :: "rx list list \<Rightarrow> receipt option \<Rightarrow> string \<Rightarrow> rat option" where
  "price_of_line [] receipt line = None"
| "price_of_line (pattern # patterns) receipt line =
     (case rx_match pattern line 0 of
        Some [a, b] \<Rightarrow>
          (case py_float (substring line a b) of
             None \<Rightarrow> price_of_line patterns receipt line
           | Some price \<Rightarrow>
               if \<not> is_total receipt price \<and> 1 \<le> price \<and> price \<le> 10000 then Some price
               else price_of_line patterns receipt line)
      | _ \<Rightarrow> price_of_line patterns receipt line)"

text \<open>The loop over \<open>item_patterns\<close>.\<close>

fun is_item_line :: "rx list list \<Rightarrow> string \<Rightarrow> bool" where
  "is_item_line [] line = False"
| "is_item_line (pattern # patterns) line =
     (if rx_match pattern line 0 \<noteq> None \<and> 3 \<le> length line \<and> length line \<le> 30
      then (if list_ex is_alpha line then True else is_item_line patterns line)
      else is_item_line patterns line)"

text \<open>
  One turn of the loop over the lines.  The state is the list \<open>items\<close> of the items found
  on one line, the list \<open>item_lines\<close> of the name candidates and the list \<open>price_lines\<close> of
  the prices, the last two with their line numbers.
\<close>

type_synonym extraction = "json list \<times> (nat \<times> string) list \<times> (nat \<times> rat) list"

definition process_line :: "receipt option \<Rightarrow> extraction \<Rightarrow> nat \<times> string \<Rightarrow> extraction" where
  "process_line receipt st numbered =
     (let (items, item_lines, price_lines) = st;
          i = fst numbered;
          line = strip (snd numbered)
      in if line = [] \<or> length line < 3 then st
         else if list_ex (\<lambda>word. contains word (lower line)) skip_words then st
         else if rx_match separator_pattern line 0 \<noteq> None then st
         else (case same_line_item same_line_patterns receipt line of
                 Some (item_name, price) \<Rightarrow>
                   (items @ [item_dict item_name price], item_lines, price_lines)
               | None \<Rightarrow>
                   (case price_of_line price_patterns receipt line of
                      Some price \<Rightarrow> (items, item_lines, price_lines @ [(i, price)])
                    | None \<Rightarrow>
                        if is_item_line item_patterns line
                        then (items, item_lines @ [(i, line)], price_lines)
                        else st)))"

text \<open>
  The inner loop of the pairing: the unused price line nearest to the item line, the
  earlier one of two that are equally near.  \<open>best\<close> is the distance, the line number and
  the price of the best so far.
\<close>

fun best_price ::
  "(nat \<times> rat) list \<Rightarrow> nat list \<Rightarrow> nat \<Rightarrow> (nat \<times> nat \<times> rat) option
     \<Rightarrow> (nat \<times> nat \<times> rat) option" where
  "best_price [] used_prices item_idx best = best"
| "best_price ((price_idx, price) # rest) used_prices item_idx best =
     (if price_idx \<in> set used_prices then best_price rest used_prices item_idx best
      else (let distance = nat \<bar>int item_idx - int price_idx\<bar>
            in if (case best of None \<Rightarrow> True | Some (best_distance, _, _) \<Rightarrow> distance < best_distance)
               then best_price rest used_prices item_idx (Some (distance, price_idx, price))
               else best_price rest used_prices item_idx best))"

text \<open>The outer loop of the pairing: a name without an unused price is dropped.\<close>

fun pair_items ::
  "(nat \<times> string) list \<Rightarrow> (nat \<times> rat) list \<Rightarrow> nat list \<Rightarrow> json list \<Rightarrow> json list" where
  "pair_items [] price_lines used_prices items = items"
| "pair_items ((item_idx, item_name) # rest) price_lines used_prices items =
     (case best_price price_lines used_prices item_idx None of
        Some (distance, best_price_idx, price) \<Rightarrow>
          pair_items rest price_lines (best_price_idx # used_prices)
            (items @ [item_dict item_name price])
      | None \<Rightarrow> pair_items rest price_lines used_prices items)"

text \<open>
  The extractor.  Nothing in its \<open>try\<close> block raises on a string, so the handler that
  returns the empty list is never entered.
\<close>

definition fallback_regex_extraction :: "string \<Rightarrow> receipt option \<Rightarrow> json list" where
  "fallback_regex_extraction raw_text receipt =
     (let lines = split_lines raw_text;
          (items, item_lines, price_lines) =
             foldl (process_line receipt) ([], [], []) (zip [0..<length lines] lines)
      in pair_items item_lines price_lines [] items)"

section \<open>The deterministic extractor on the milk and bread receipt\<close>

text \<open>The extractor reads the receipt only through \<open>is_total\<close>.\<close>

lemma same_line_item_cong:
  assumes "\<And>p. is_total r1 p = is_total r2 p"
  shows "same_line_item patterns r1 line = same_line_item patterns r2 line"
proof (induction patterns)
  case Nil
  then show ?case by simp
next
  case (Cons pattern patterns)
  show ?case
    unfolding same_line_item.simps assms Cons.IH by (rule refl)
qed

lemma price_of_line_cong:
  assumes "\<And>p. is_total r1 p = is_total r2 p"
  shows "price_of_line patterns r1 line = price_of_line patterns r2 line"
proof (induction patterns)
  case Nil
  then show ?case by simp
next
  case (Cons pattern patterns)
  show ?case
    unfolding price_of_line.simps assms Cons.IH by (rule refl)
qed

lemma fallback_regex_extraction_cong:
  assumes "\<And>p. is_total r1 p = is_total r2 p"
  shows "fallback_regex_extraction raw_text r1 = fallback_regex_extraction raw_text r2"
proof -
  have "process_line r1 = process_line r2"
    unfolding process_line_def same_line_item_cong [OF assms] price_of_line_cong [OF assms]
    by (rule refl)
  then show ?thesis
    by (simp add: fallback_regex_extraction_def)
qed

text \<open>
  The raw text \<open>"MILK 1L  Rs. 55.00\nBREAD\n42.00\nTOTAL  97.00"\<close>, a receipt whose total
  amount is 97.00 and one whose total amount is 50.00.
\<close>

definition milk_bread_text :: string where
  "milk_bread_text =
     ''MILK 1L  Rs. 55.00'' @ [CHR 0x0A] @ ''BREAD'' @ [CHR 0x0A] @ ''42.00'' @ [CHR 0x0A]
       @ ''TOTAL  97.00''"

definition receipt_of_total :: "rat \<Rightarrow> receipt" where
  "receipt_of_total amount =
     \<lparr>rc_id = ''r1'', rc_user_id = ''u1'', rc_merchant_name = ''Big Mart'',
      rc_merchant_address = None, rc_merchant_phone = None, rc_merchant_tax_id = None,
      rc_date = 0, rc_total_amount = Some amount, rc_payment_method = None,
      rc_card_last_four = None, rc_raw_text = milk_bread_text, rc_items = []\<rparr>"

lemma milk_bread_97:
  "fallback_regex_extraction milk_bread_text (Some (receipt_of_total 97))
     = [JObj [(''name'', JStr ''MILK 1L''), (''price'', JFloat 55), (''quantity'', JInt 1),
              (''total_price'', JFloat 55)],
        JObj [(''name'', JStr ''BREAD''), (''price'', JFloat 42), (''quantity'', JInt 1),
              (''total_price'', JFloat 42)]]"
  by code_simp

lemma total_line_skipped: "process_line receipt st (i, ''TOTAL  97.00'') = st"
  by (simp add: process_line_def strip_def is_space_def lower_def skip_words_def
      split: prod.split)

text \<open>
  Claim C7 as stated fails in its last part: the line \<open>TOTAL  97.00\<close> is not excluded
  because 97.00 matches the hint.  Without a receipt, and with a receipt whose total amount
  is 50.00, the extractor returns the same two items.
\<close>

theorem milk_bread_extraction_counterexample:
  "fallback_regex_extraction milk_bread_text None
     = [JObj [(''name'', JStr ''MILK 1L''), (''price'', JFloat 55), (''quantity'', JInt 1),
              (''total_price'', JFloat 55)],
        JObj [(''name'', JStr ''BREAD''), (''price'', JFloat 42), (''quantity'', JInt 1),
              (''total_price'', JFloat 42)]]
   \<and> fallback_regex_extraction milk_bread_text (Some (receipt_of_total 50))
     = [JObj [(''name'', JStr ''MILK 1L''), (''price'', JFloat 55), (''quantity'', JInt 1),
              (''total_price'', JFloat 55)],
        JObj [(''name'', JStr ''BREAD''), (''price'', JFloat 42), (''quantity'', JInt 1),
              (''total_price'', JFloat 42)]]"
  by code_simp

text \<open>
  Claim C7, amended.  On the raw text \<open>"MILK 1L  Rs. 55.00\nBREAD\n42.00\nTOTAL  97.00"\<close>
  with a receipt whose total amount is 97.00 (and whose other fields are arbitrary) the
  extractor returns exactly the two items MILK 1L at 55.0 and BREAD at 42.0, each with
  quantity 1 and its price as total price, in this order.  The line \<open>TOTAL  97.00\<close> is
  discarded before any price is read, whatever the receipt, because it contains the word
  "total" of the list of words to skip.
\<close>

theorem milk_bread_extraction:
  "fallback_regex_extraction milk_bread_text (Some (r\<lparr>rc_total_amount := Some 97\<rparr>))
     = [JObj [(''name'', JStr ''MILK 1L''), (''price'', JFloat 55), (''quantity'', JInt 1),
              (''total_price'', JFloat 55)],
        JObj [(''name'', JStr ''BREAD''), (''price'', JFloat 42), (''quantity'', JInt 1),
              (''total_price'', JFloat 42)]]
   \<and> process_line receipt st (i, ''TOTAL  97.00'') = st
   \<and> list_ex (\<lambda>word. contains word (lower (strip ''TOTAL  97.00''))) skip_words"
proof -
  have "is_total (Some (r\<lparr>rc_total_amount := Some 97\<rparr>)) p
      = is_total (Some (receipt_of_total 97)) p" for p
    by (simp add: is_total_def receipt_of_total_def)
  then have "fallback_regex_extraction milk_bread_text (Some (r\<lparr>rc_total_amount := Some 97\<rparr>))
      = fallback_regex_extraction milk_bread_text (Some (receipt_of_total 97))"
    by (rule fallback_regex_extraction_cong)
  moreover have "list_ex (\<lambda>word. contains word (lower (strip ''TOTAL  97.00''))) skip_words"
    by code_simp
  ultimately show ?thesis
    by (simp only: milk_bread_97 total_line_skipped simp_thms)
qed

section \<open>The AI extractor (\_extract\_items\_from\_text)\<close>

text \<open>\<open>s.endswith(suffix)\<close>, \<open>s.find(c)\<close> and \<open>s.rfind(c)\<close> for a character that occurs in \<open>s\<close>.\<close>

definition ends_with :: "string \<Rightarrow> string \<Rightarrow> bool" where
  "ends_with s suffix = starts_with (rev s) (rev suffix)"

definition find_char :: "char \<Rightarrow> string \<Rightarrow> nat" where
  "find_char c s = length (takeWhile (\<lambda>x. x \<noteq> c) s)"

definition rfind_char :: "char \<Rightarrow> string \<Rightarrow> nat" where
  "rfind_char c s = length s - 1 - length (takeWhile (\<lambda>x. x \<noteq> c) (rev s))"

definition clean_gemini_response :: "string \<Rightarrow> string" where
  "clean_gemini_response response =
     (if response = [] then []
      else
        (let response1 = strip response;
             response2 =
               (if starts_with response1 ''```json'' then drop 7 response1
                else if starts_with response1 ''```'' then drop 3 response1
                else response1);
             response3 =
               (if ends_with response2 ''```'' then take (length response2 - 3) response2
                else response2);
             response4 = strip response3
         in if CHR ''['' \<in> set response4 \<and> CHR '']'' \<in> set response4
            then (let start = find_char CHR ''['' response4;
                      end = rfind_char CHR '']'' response4 + 1
                  in drop start (take end response4))
            else response4))"

text \<open>
  \<open>_extract_items_from_text\<close>.  \<open>loads\<close> is \<open>json.loads\<close>, \<open>None\<close> when it raises
  \<open>JSONDecodeError\<close>.  The handler of \<open>JSONDecodeError\<close> returns the empty list; the handler
  of every other exception runs the deterministic extractor.  Such an exception is raised by
  the call to the service and by \<open>len(items_data)\<close>, which the log line evaluates, when the
  response parses to a number, a boolean or \<open>null\<close>; \<open>parsed_items\<close> is the variable
  \<open>items_data\<close> of the source.
\<close>

definition extract_items_from_text ::
  "(string \<Rightarrow> json option) \<Rightarrow> ai_service \<Rightarrow> nat \<Rightarrow> string \<Rightarrow> receipt option \<Rightarrow> json \<times> nat" where
  "extract_items_from_text loads svc calls raw_text receipt =
     (case call_gemini svc calls of
        (Inl e, calls') \<Rightarrow> (JArr (fallback_regex_extraction raw_text receipt), calls')
      | (Inr response, calls') \<Rightarrow>
          (let response_clean = clean_gemini_response response
           in if response_clean = [] then (JArr [], calls')
              else (case loads response_clean of
                      None \<Rightarrow> (JArr [], calls')
                    | Some parsed_items \<Rightarrow>
                        (case py_len parsed_items of
                           Inl e \<Rightarrow> (JArr (fallback_regex_extraction raw_text receipt), calls')
                         | Inr n \<Rightarrow> (parsed_items, calls')))))"

section \<open>A response that does not parse\<close>

definition no_loads :: "string \<Rightarrow> json option" where
  "no_loads s = None"

definition garbled_service :: ai_service where
  "garbled_service k = Inr ''Sorry, no items''"

lemma call_gemini_answer: "svc calls = Inr response \<Longrightarrow> call_gemini svc calls = (Inr response, Suc calls)"
  by (simp add: call_gemini_def eval_nat_numeral)

text \<open>
  Claim C2 as stated fails.  The service answers \<open>Sorry, no items\<close>, which \<open>json.loads\<close> does
  not parse; the raw text is \<open>MILK 1L  Rs. 55.00\<close>, from which the deterministic extractor
  gets one item.  \<open>_extract_items_from_text\<close> returns the empty list.
\<close>

theorem unparsed_response_counterexample:
  "fst (extract_items_from_text no_loads garbled_service 0 ''MILK 1L  Rs. 55.00'' None) = JArr []
   \<and> fallback_regex_extraction ''MILK 1L  Rs. 55.00'' None
       = [JObj [(''name'', JStr ''MILK 1L''), (''price'', JFloat 55), (''quantity'', JInt 1),
                (''total_price'', JFloat 55)]]"
proof -
  have "call_gemini garbled_service 0 = (Inr ''Sorry, no items'', Suc 0)"
    by (rule call_gemini_answer) (simp add: garbled_service_def)
  moreover have "clean_gemini_response ''Sorry, no items'' = ''Sorry, no items''"
    by code_simp
  ultimately have "fst (extract_items_from_text no_loads garbled_service 0
      ''MILK 1L  Rs. 55.00'' None) = JArr []"
    by (simp add: extract_items_from_text_def no_loads_def)
  moreover have "fallback_regex_extraction ''MILK 1L  Rs. 55.00'' None
      = [JObj [(''name'', JStr ''MILK 1L''), (''price'', JFloat 55), (''quantity'', JInt 1),
               (''total_price'', JFloat 55)]]"
    by code_simp
  ultimately show ?thesis by simp
qed

text \<open>
  Claim C2, amended.  When the service answers and the answer, once cleaned, is empty or is
  not parsed by \<open>json.loads\<close>, \<open>_extract_items_from_text\<close> returns the empty list and makes
  no further request (after an answer to the first request, that one request is all): the
  failure is not retried, not propagated, and the deterministic extractor is not run.  The deterministic extractor is run on the raw text,
  and its list returned, when the call to the service fails (after its retries).
\<close>

theorem unparsed_response:
  "(svc calls = Inr response
     \<and> (clean_gemini_response response = [] \<or> loads (clean_gemini_response response) = None)
    \<longrightarrow> extract_items_from_text loads svc calls raw_text receipt = (JArr [], Suc calls))
   \<and> (call_gemini svc'' calls = (Inr response, calls')
     \<and> (clean_gemini_response response = [] \<or> loads (clean_gemini_response response) = None)
    \<longrightarrow> extract_items_from_text loads svc'' calls raw_text receipt = (JArr [], calls'))
   \<and> (fst (call_gemini svc' calls) = Inl e
      \<longrightarrow> fst (extract_items_from_text loads svc' calls raw_text receipt)
            = JArr (fallback_regex_extraction raw_text receipt))"
proof (intro conjI impI)
  assume a: "svc calls = Inr response
    \<and> (clean_gemini_response response = [] \<or> loads (clean_gemini_response response) = None)"
  then have "call_gemini svc calls = (Inr response, Suc calls)"
    by (simp add: call_gemini_answer)
  with a show "extract_items_from_text loads svc calls raw_text receipt = (JArr [], Suc calls)"
    by (auto simp: extract_items_from_text_def Let_def)
next
  assume "call_gemini svc'' calls = (Inr response, calls')
    \<and> (clean_gemini_response response = [] \<or> loads (clean_gemini_response response) = None)"
  then show "extract_items_from_text loads svc'' calls raw_text receipt = (JArr [], calls')"
    by (auto simp: extract_items_from_text_def Let_def)
next
  assume "fst (call_gemini svc' calls) = Inl e"
  then show "fst (extract_items_from_text loads svc' calls raw_text receipt)
      = JArr (fallback_regex_extraction raw_text receipt)"
    by (auto simp: extract_items_from_text_def split: prod.splits sum.splits)
qed

theorem unparsed_response_witness:
  "garbled_service 0 = Inr ''Sorry, no items''
   \<and> call_gemini garbled_service 0 = (Inr ''Sorry, no items'', Suc 0)
   \<and> no_loads (clean_gemini_response ''Sorry, no items'') = None
   \<and> extract_items_from_text no_loads garbled_service 0 ''MILK 1L  Rs. 55.00'' None
       = (JArr [], Suc 0)
   \<and> fst (call_gemini failing_service 0) = Inl TransportError
   \<and> fst (extract_items_from_text no_loads failing_service 0 ''MILK 1L  Rs. 55.00'' None)
       = JArr (fallback_regex_extraction ''MILK 1L  Rs. 55.00'' None)"
proof -
  have h1: "garbled_service 0 = Inr ''Sorry, no items''"
    by (simp add: garbled_service_def)
  have h2: "no_loads (clean_gemini_response ''Sorry, no items'') = None"
    by (simp add: no_loads_def)
  have h3: "fst (call_gemini failing_service 0) = Inl TransportError"
    by (simp add: call_gemini_def failing_service_def eval_nat_numeral)
  note t = unparsed_response [where svc = garbled_service and calls = 0
      and response = "''Sorry, no items''" and loads = no_loads
      and raw_text = "''MILK 1L  Rs. 55.00''" and receipt = None
      and svc' = failing_service and e = TransportError
      and svc'' = garbled_service and calls' = "Suc 0"]
  have h4: "call_gemini garbled_service 0 = (Inr ''Sorry, no items'', Suc 0)"
    using h1 by (rule call_gemini_answer)
  from t h1 h2 have c1: "extract_items_from_text no_loads garbled_service 0
      ''MILK 1L  Rs. 55.00'' None = (JArr [], Suc 0)"
    by blast
  from t h3 have c2: "fst (extract_items_from_text no_loads failing_service 0
      ''MILK 1L  Rs. 55.00'' None) = JArr (fallback_regex_extraction ''MILK 1L  Rs. 55.00'' None)"
    by blast
  from h1 h4 h2 c1 h3 c2 show ?thesis by blast
qed

section \<open>Entities of a receipt (\_extract\_entities\_from\_receipt)\<close>

text \<open>Sequencing of two steps of which the first may raise.\<close>

definition and_then :: "py_error + 'a \<Rightarrow> ('a \<Rightarrow> py_error + 'b) \<Rightarrow> py_error + 'b" where
  "and_then m f = (case m of Inl e \<Rightarrow> Inl e | Inr x \<Rightarrow> f x)"

text \<open>\<open>d.get(k1, {}).get(k2, default)\<close>\<close>

definition py_get2 :: "json \<Rightarrow> string \<Rightarrow> string \<Rightarrow> json \<Rightarrow> py_error + json" where
  "py_get2 d k1 k2 dflt = and_then (py_get d k1 (JObj [])) (\<lambda>inner. py_get inner k2 dflt)"

text \<open>
  The operator \<open>*\<close> on two values: the product of two numbers, a \<open>bool\<close> counting as the
  \<open>int\<close> 0 or 1; a string or a list repeated, when the other operand is an \<open>int\<close> or a
  \<open>bool\<close>; a \<open>TypeError\<close> otherwise.
\<close>

fun int_like :: "json \<Rightarrow> int option" where
  "int_like (JInt n) = Some n"
| "int_like (JBool b) = Some (if b then 1 else 0)"
| "int_like _ = None"

fun num_like :: "json \<Rightarrow> rat option" where
  "num_like (JFloat r) = Some r"
| "num_like (JInt n) = Some (of_int n)"
| "num_like (JBool b) = Some (if b then 1 else 0)"
| "num_like _ = None"

fun py_repeat :: "json \<Rightarrow> int \<Rightarrow> py_error + json" where
  "py_repeat (JStr s) n = Inr (JStr (concat (replicate (nat n) s)))"
| "py_repeat (JArr xs) n = Inr (JArr (concat (replicate (nat n) xs)))"
| "py_repeat _ n = Inl TypeError"

definition py_mul :: "json \<Rightarrow> json \<Rightarrow> py_error + json" where
  "py_mul a b =
     (case (int_like a, int_like b) of
        (Some m, Some n) \<Rightarrow> Inr (JInt (m * n))
      | (Some m, None) \<Rightarrow>
          (case num_like b of Some y \<Rightarrow> Inr (JFloat (of_int m * y)) | None \<Rightarrow> py_repeat b m)
      | (None, Some n) \<Rightarrow>
          (case num_like a of Some x \<Rightarrow> Inr (JFloat (x * of_int n)) | None \<Rightarrow> py_repeat a n)
      | (None, None) \<Rightarrow>
          (case (num_like a, num_like b) of
             (Some x, Some y) \<Rightarrow> Inr (JFloat (x * y))
           | _ \<Rightarrow> Inl TypeError))"

text \<open>
  \<open>str(x)\<close>: a string is itself; what it is on any other value is the argument \<open>repr\<close>.
\<close>

definition py_str :: "(json \<Rightarrow> string) \<Rightarrow> json \<Rightarrow> string" where
  "py_str repr j = (case j of JStr s \<Rightarrow> s | _ \<Rightarrow> repr j)"

text \<open>
  The validation that the constructor \<open>GraphEntity(...)\<close> runs on the fields that receive a
  dynamically typed value: \<open>name: str\<close>, \<open>category: Optional[str]\<close> and \<open>confidence: float\<close>.
  A value of the field's type is taken as it is, an \<open>int\<close> or a \<open>bool\<close> is taken for a
  \<open>float\<close>, and anything else is refused with a \<open>ValidationError\<close>.  (Pydantic converts some
  further values, such as a string that spells a number for a \<open>float\<close> field; the model
  refuses them.)  No bound is checked on \<open>confidence\<close>: the field is declared
  \<open>Field(default=1.0, description=...)\<close> with no constraint.
\<close>

fun validate_str :: "json \<Rightarrow> py_error + string" where
  "validate_str (JStr s) = Inr s"
| "validate_str _ = Inl ValidationError"

fun validate_optional_str :: "json \<Rightarrow> py_error + string option" where
  "validate_optional_str (JStr s) = Inr (Some s)"
| "validate_optional_str JNull = Inr None"
| "validate_optional_str _ = Inl ValidationError"

fun validate_float :: "json \<Rightarrow> py_error + rat" where
  "validate_float (JFloat r) = Inr r"
| "validate_float (JInt n) = Inr (of_int n)"
| "validate_float (JBool b) = Inr (if b then 1 else 0)"
| "validate_float _ = Inl ValidationError"

text \<open>
  \<open>GraphEntity(name=..., type=..., category=..., attributes=..., confidence=...)\<close>;
  \<open>new_id\<close> is the value that the default factory of \<open>id\<close> draws from \<open>uuid.uuid4()\<close>.  The
  defaults are \<open>None\<close> for \<open>category\<close> and 1.0 for \<open>confidence\<close>.
\<close>

definition GraphEntity ::
  "string \<Rightarrow> string \<Rightarrow> string \<Rightarrow> string option \<Rightarrow> (string \<times> json) list \<Rightarrow> rat \<Rightarrow> graph_entity" where
  "GraphEntity new_id name type category attributes confidence =
     \<lparr>e_id = new_id, e_name = name, e_type = type, e_category = category,
      e_attributes = attributes, e_confidence = confidence\<rparr>"

text \<open>\<open>None\<close> or the string, as a dynamically typed value.\<close>

definition opt_str :: "string option \<Rightarrow> json" where
  "opt_str s = (case s of None \<Rightarrow> JNull | Some x \<Rightarrow> JStr x)"


text \<open>
  What the loop body reads from the item: the price, the quantity, the total price (whose
  default, price times quantity, is computed whether or not it is needed), the sku and the
  description.
\<close>

fun item_fields :: "item \<Rightarrow> py_error + (json \<times> json \<times> json \<times> json \<times> json)" where
  "item_fields (ReceiptItem i) =
     Inr (JFloat (ri_unit_price i), JFloat (ri_quantity i), JFloat (ri_total_price i),
          opt_str (ri_sku i), opt_str (ri_description i))"
| "item_fields (DictItem j) =
     and_then (py_get j ''price'' (JFloat 0)) (\<lambda>base_price.
     and_then (py_get j ''quantity'' (JInt 1)) (\<lambda>quantity.
     and_then (py_mul base_price quantity) (\<lambda>product.
     and_then (py_get j ''total_price'' product) (\<lambda>total_price.
     and_then (py_get j ''sku'' JNull) (\<lambda>sku.
     and_then (py_get j ''description'' JNull) (\<lambda>description.
       Inr (base_price, quantity, total_price, sku, description)))))))"

text \<open>\<open>item.name if hasattr(item, 'name') else str(item.get('name', 'Unknown Item'))\<close>\<close>

fun item_entity_name :: "(json \<Rightarrow> string) \<Rightarrow> item \<Rightarrow> py_error + string" where
  "item_entity_name repr (ReceiptItem i) = Inr (ri_name i)"
| "item_entity_name repr (DictItem j) =
     and_then (py_get j ''name'' (JStr ''Unknown Item'')) (\<lambda>name. Inr (py_str repr name))"

text \<open>\<open>item.name if hasattr(item, 'name') else item.get('name', 'Unknown')\<close>\<close>

fun item_brand_product :: "item \<Rightarrow> py_error + json" where
  "item_brand_product (ReceiptItem i) = Inr (JStr (ri_name i))"
| "item_brand_product (DictItem j) = py_get j ''name'' (JStr ''Unknown'')"

text \<open>The dict \<open>product_attributes\<close>, its values computed in the order of the source.\<close>

definition product_attributes :: "item \<Rightarrow> json \<Rightarrow> json \<Rightarrow> py_error + (string \<times> json) list" where
  "product_attributes item classification enhanced_data =
     and_then (item_fields item) (\<lambda>(base_price, quantity, total_price, sku, description).
     and_then (py_get classification ''confidence'' (JFloat (8 / 10))) (\<lambda>confidence.
     and_then (py_get classification ''brand'' JNull) (\<lambda>brand.
     and_then (py_get enhanced_data ''product_type'' JNull) (\<lambda>product_type.
     and_then (py_get2 enhanced_data ''warranty_info'' ''has_warranty'' (JBool False)) (\<lambda>has_warranty.
     and_then (py_get2 enhanced_data ''warranty_info'' ''warranty_period'' JNull) (\<lambda>warranty_period.
     and_then (py_get2 enhanced_data ''warranty_info'' ''warranty_expiry'' JNull) (\<lambda>warranty_expiry.
     and_then (py_get2 enhanced_data ''expiry_info'' ''has_expiry'' (JBool False)) (\<lambda>has_expiry.
     and_then (py_get2 enhanced_data ''expiry_info'' ''expiry_date'' JNull) (\<lambda>expiry_date.
     and_then (py_get2 enhanced_data ''expiry_info'' ''days_until_expiry'' JNull) (\<lambda>days_until_expiry.
     and_then (py_get2 enhanced_data ''expiry_info'' ''is_expiring_soon'' (JBool False)) (\<lambda>is_expiring_soon.
     and_then (py_get2 enhanced_data ''nutritional_info'' ''is_food'' (JBool False)) (\<lambda>is_food.
     and_then (py_get2 enhanced_data ''nutritional_info'' ''allergens'' (JArr [])) (\<lambda>allergens.
     and_then (py_get2 enhanced_data ''nutritional_info'' ''dietary_tags'' (JArr [])) (\<lambda>dietary_tags.
     and_then (py_get2 enhanced_data ''price_analysis'' ''unit_price'' base_price) (\<lambda>unit_price.
     and_then (py_get2 enhanced_data ''price_analysis'' ''price_per_unit'' base_price) (\<lambda>price_per_unit.
     and_then (py_get2 enhanced_data ''price_analysis'' ''is_discounted'' (JBool False)) (\<lambda>is_discounted.
     and_then (py_get2 enhanced_data ''price_analysis'' ''original_price'' JNull) (\<lambda>original_price.
       Inr [(''price'', base_price), (''quantity'', quantity), (''total_price'', total_price),
            (''sku'', sku), (''description'', description), (''confidence'', confidence),
            (''brand'', brand), (''product_type'', product_type),
            (''has_warranty'', has_warranty), (''warranty_period'', warranty_period),
            (''warranty_expiry'', warranty_expiry),
            (''has_expiry'', has_expiry), (''expiry_date'', expiry_date),
            (''days_until_expiry'', days_until_expiry), (''is_expiring_soon'', is_expiring_soon),
            (''is_food'', is_food), (''allergens'', allergens), (''dietary_tags'', dietary_tags),
            (''unit_price'', unit_price), (''price_per_unit'', price_per_unit),
            (''is_discounted'', is_discounted), (''original_price'', original_price)]
     ))))))))))))))))))"

text \<open>
  The body of the loop over the pairs of an item and its classification: the entities it
  appends, in order, and the number of identifiers drawn so far.  \<open>uuid k\<close> is the \<open>k\<close>-th
  identifier that \<open>uuid.uuid4()\<close> gives.
\<close>

definition brand_entities_detected ::
  "(nat \<Rightarrow> string) \<Rightarrow> nat \<Rightarrow> json \<Rightarrow> string \<Rightarrow> py_error + (graph_entity list \<times> nat)" where
  "brand_entities_detected uuid k brand_name product_name =
     (if truthy brand_name
      then and_then (validate_str brand_name) (\<lambda>name.
             Inr ([GraphEntity (uuid k) name ''brand'' None
                     [(''domain'', JStr ''product_brand''), (''detected_from'', JStr product_name)]
                     1],
                  Suc k))
      else Inr ([], k))"

definition brand_entities ::
  "(nat \<Rightarrow> string) \<Rightarrow> nat \<Rightarrow> json \<Rightarrow> item \<Rightarrow> py_error + (graph_entity list \<times> nat)" where
  "brand_entities uuid k brand item =
     (if truthy brand
      then and_then (item_brand_product item) (\<lambda>product.
           and_then (validate_str brand) (\<lambda>name.
             Inr ([GraphEntity (uuid k) name ''brand'' None [(''product'', product)] 1], Suc k)))
      else Inr ([], k))"

definition product_entity_of ::
  "(nat \<Rightarrow> string) \<Rightarrow> (json \<Rightarrow> string) \<Rightarrow> nat \<Rightarrow> item \<Rightarrow> json \<Rightarrow> py_error + graph_entity" where
  "product_entity_of uuid repr k item classification =
     and_then (py_get classification ''enhanced_data'' (JObj [])) (\<lambda>enhanced_data.
     and_then (product_attributes item classification enhanced_data) (\<lambda>attributes.
     and_then (item_entity_name repr item) (\<lambda>product_name.
     and_then (py_get classification ''category'' (JStr ''other'')) (\<lambda>category.
     and_then (py_get classification ''confidence'' (JFloat (8 / 10))) (\<lambda>confidence.
     and_then (validate_optional_str category) (\<lambda>product_category.
     and_then (validate_float confidence) (\<lambda>product_confidence.
       Inr (GraphEntity (uuid k) product_name ''product'' product_category attributes
              product_confidence))))))))"

definition category_entity_of :: "(nat \<Rightarrow> string) \<Rightarrow> nat \<Rightarrow> json \<Rightarrow> py_error + graph_entity" where
  "category_entity_of uuid k classification =
     and_then (py_get classification ''category'' (JStr ''other'')) (\<lambda>category_name.
     and_then (validate_str category_name) (\<lambda>name.
       Inr (GraphEntity (uuid k) name ''category'' None
              [(''domain'', JStr ''product_category'')] 1)))"

definition item_entities ::
  "(nat \<Rightarrow> string) \<Rightarrow> (json \<Rightarrow> string) \<Rightarrow> nat \<Rightarrow> item \<Rightarrow> json
     \<Rightarrow> py_error + (graph_entity list \<times> nat)" where
  "item_entities uuid repr k item classification =
     and_then (product_entity_of uuid repr k item classification) (\<lambda>product_entity.
     and_then (py_get classification ''brand'' JNull) (\<lambda>brand_name.
     and_then (brand_entities_detected uuid (Suc k) brand_name (e_name product_entity))
       (\<lambda>(detected, k1).
     and_then (category_entity_of uuid k1 classification) (\<lambda>category_entity.
     and_then (py_get classification ''brand'' JNull) (\<lambda>brand.
     and_then (brand_entities uuid (Suc k1) brand item) (\<lambda>(brands, k2).
       Inr ([product_entity] @ detected @ [category_entity] @ brands, k2)))))))"








section \<open>The entities of one item\<close>

lemma and_then_Inr:
  "and_then m f = Inr y \<longleftrightarrow> (\<exists>x. m = Inr x \<and> f x = Inr y)"
  by (cases m) (simp_all add: and_then_def)

lemma and_then_Inr_simp [simp]: "and_then (Inr x) f = f x"
  by (simp add: and_then_def)

lemma and_then_Inl_simp [simp]: "and_then (Inl e) f = Inl e"
  by (simp add: and_then_def)

lemma e_type_GraphEntity [simp]: "e_type (GraphEntity i n t c a conf) = t"
  by (simp add: GraphEntity_def)

lemma e_confidence_GraphEntity [simp]: "e_confidence (GraphEntity i n t c a conf) = conf"
  by (simp add: GraphEntity_def)

lemma e_name_GraphEntity [simp]: "e_name (GraphEntity i n t c a conf) = n"
  by (simp add: GraphEntity_def)

lemma product_entity_of_type:
  "product_entity_of uuid repr k item classification = Inr p \<Longrightarrow> e_type p = ''product''"
  by (auto simp: product_entity_of_def and_then_Inr)

lemma category_entity_of_type:
  "category_entity_of uuid k classification = Inr c \<Longrightarrow> e_type c = ''category''"
  by (auto simp: category_entity_of_def and_then_Inr)

lemma brand_entities_detected_types:
  "brand_entities_detected uuid k brand product_name = Inr (es, k')
   \<Longrightarrow> map e_type es = (if truthy brand then [''brand''] else [])"
  by (auto simp: brand_entities_detected_def and_then_Inr split: if_splits)

lemma brand_entities_types:
  "brand_entities uuid k brand item = Inr (es, k')
   \<Longrightarrow> map e_type es = (if truthy brand then [''brand''] else [])"
  by (auto simp: brand_entities_def and_then_Inr split: if_splits)

lemma item_entities_types:
  assumes "item_entities uuid repr k item classification = Inr (entities, k')"
    and "py_get classification ''brand'' JNull = Inr brand"
  shows "map e_type entities =
           (if truthy brand then [''product'', ''brand'', ''category'', ''brand'']
            else [''product'', ''category''])"
proof -
  from assms obtain p detected k1 c brands where
    p: "product_entity_of uuid repr k item classification = Inr p"
    and d: "brand_entities_detected uuid (Suc k) brand (e_name p) = Inr (detected, k1)"
    and c: "category_entity_of uuid k1 classification = Inr c"
    and b: "brand_entities uuid (Suc k1) brand item = Inr (brands, k')"
    and e: "entities = [p] @ detected @ [c] @ brands"
    by (auto simp: item_entities_def and_then_Inr)
  from p have "e_type p = ''product''" by (rule product_entity_of_type)
  moreover from c have "e_type c = ''category''" by (rule category_entity_of_type)
  moreover from d have "map e_type detected = (if truthy brand then [''brand''] else [])"
    by (rule brand_entities_detected_types)
  moreover from b have "map e_type brands = (if truthy brand then [''brand''] else [])"
    by (rule brand_entities_types)
  ultimately show ?thesis using e by simp
qed

text \<open>
  One item \<open>{"name": "Amul Butter", "price": 55.0, "quantity": 1}\<close> and a classification of
  it with the brand \<open>Amul\<close>; identifiers \<open>id\<close>, \<open>idi\<close>, \<open>idii\<close>, ...; a \<open>repr\<close> that is never
  consulted, the names being strings.
\<close>

definition sample_uuid :: "nat \<Rightarrow> string" where
  "sample_uuid k = ''id'' @ replicate k (CHR ''i'')"

definition sample_repr :: "json \<Rightarrow> string" where
  "sample_repr j = ''?''"

definition butter_item :: item where
  "butter_item =
     DictItem (JObj [(''name'', JStr ''Amul Butter''), (''price'', JFloat 55),
                     (''quantity'', JInt 1)])"

definition butter_classification :: json where
  "butter_classification =
     JObj [(''category'', JStr ''dairy''), (''confidence'', JFloat (9 / 10)),
           (''brand'', JStr ''Amul''),
           (''enhanced_data'',
              JObj [(''category'', JStr ''dairy''), (''confidence'', JFloat (9 / 10)),
                    (''brand'', JStr ''Amul'')])]"

text \<open>
  Claim C8.  The body of the assembly loop, when it completes, appends for its item one
  product entity and one category entity, and, when the classification has a brand, not one
  brand entity but two: one after the product entity and one after the category entity.
  Without a brand it appends no brand entity.
\<close>

theorem item_entities_kinds:
  assumes "item_entities uuid repr k item classification = Inr (entities, k')"
    and "py_get classification ''brand'' JNull = Inr brand"
  shows "map e_type entities =
           (if truthy brand then [''product'', ''brand'', ''category'', ''brand'']
            else [''product'', ''category''])
         \<and> length (filter (\<lambda>e. e_type e = ''product'') entities) = 1
         \<and> length (filter (\<lambda>e. e_type e = ''category'') entities) = 1
         \<and> length (filter (\<lambda>e. e_type e = ''brand'') entities) = (if truthy brand then 2 else 0)"
proof -
  have t: "map e_type entities =
      (if truthy brand then [''product'', ''brand'', ''category'', ''brand'']
       else [''product'', ''category''])"
    using assms by (rule item_entities_types)
  have f: "length (filter (\<lambda>e. e_type e = s) entities)
      = length (filter (\<lambda>x. x = s) (map e_type entities))" for s
    by (simp add: filter_map comp_def)
  show ?thesis
    unfolding f t by simp
qed

theorem item_entities_kinds_witness:
  "item_entities sample_uuid sample_repr 0 butter_item butter_classification
     = Inr (fst (projr (item_entities sample_uuid sample_repr 0 butter_item
                          butter_classification)), 4)
   \<and> py_get butter_classification ''brand'' JNull = Inr (JStr ''Amul'')
   \<and> map (\<lambda>e. (e_type e, e_name e))
        (fst (projr (item_entities sample_uuid sample_repr 0 butter_item butter_classification)))
       = [(''product'', ''Amul Butter''), (''brand'', ''Amul''), (''category'', ''dairy''),
          (''brand'', ''Amul'')]
   \<and> length (filter (\<lambda>e. e_type e = ''brand'')
        (fst (projr (item_entities sample_uuid sample_repr 0 butter_item
                       butter_classification)))) = 2"
proof -
  have h1: "item_entities sample_uuid sample_repr 0 butter_item butter_classification
      = Inr (fst (projr (item_entities sample_uuid sample_repr 0 butter_item
                           butter_classification)), 4)"
    by code_simp
  have h2: "py_get butter_classification ''brand'' JNull = Inr (JStr ''Amul'')"
    by (simp add: butter_classification_def)
  have h3: "map (\<lambda>e. (e_type e, e_name e))
      (fst (projr (item_entities sample_uuid sample_repr 0 butter_item butter_classification)))
      = [(''product'', ''Amul Butter''), (''brand'', ''Amul''), (''category'', ''dairy''),
         (''brand'', ''Amul'')]"
    by code_simp
  have h4: "truthy (JStr ''Amul'')" by simp
  note t = item_entities_kinds [where uuid = sample_uuid and repr = sample_repr and k = 0
      and item = butter_item and classification = butter_classification
      and entities = "fst (projr (item_entities sample_uuid sample_repr 0 butter_item
                                    butter_classification))"
      and k' = 4 and brand = "JStr ''Amul''"]
  from t [OF h1 h2] h4 have "length (filter (\<lambda>e. e_type e = ''brand'')
      (fst (projr (item_entities sample_uuid sample_repr 0 butter_item
                     butter_classification)))) = 2"
    by simp
  with h1 h2 h3 show ?thesis by blast
qed

section \<open>The confidence of the entities\<close>

























end
